theory Spec2Isabelle
  imports Main "HOL-Library.Sublist"
begin

section \<open>Python string and list primitives used by the query generators\<close>

abbreviation tab :: char where "tab \<equiv> CHR 0x09"
abbreviation nl :: char where "nl \<equiv> CHR 0x0A"

definition digit_char :: "nat \<Rightarrow> char" where
  "digit_char n = ''0123456789'' ! n"

fun str_nat :: "nat \<Rightarrow> string" where
  "str_nat n = (if n < 10 then [digit_char n] else str_nat (n div 10) @ [digit_char (n mod 10)])"
declare str_nat.simps [simp del]

text \<open>\<open>str(i)\<close> for a Python \<open>int\<close>, as an f-string placeholder renders it.\<close>
definition py_str_int :: "int \<Rightarrow> string" where
  "py_str_int i = (if i < 0 then ''-'' @ str_nat (nat (- i)) else str_nat (nat i))"

text \<open>\<open>sep.join(xs)\<close>.\<close>
fun py_join :: "string \<Rightarrow> string list \<Rightarrow> string" where
  "py_join sep [] = []"
| "py_join sep [x] = x"
| "py_join sep (x # y # ys) = x @ sep @ py_join sep (y # ys)"

text \<open>\<open>range(n)\<close>: empty when \<open>n \<le> 0\<close>.\<close>
definition py_range :: "int \<Rightarrow> int list" where
  "py_range n = map int [0..<nat n]"

text \<open>\<open>s * n\<close> for a string and an int: empty when \<open>n \<le> 0\<close>.\<close>
definition py_repeat :: "string \<Rightarrow> int \<Rightarrow> string" where
  "py_repeat s n = concat (replicate (nat n) s)"

section \<open>Blank-node fragments\<close>

definition generate_bnode_construct :: "int \<Rightarrow> string" where
  "generate_bnode_construct depth =
     [nl] @ py_join [nl]
       (map (\<lambda>i. [tab] @ ''?o'' @ py_str_int (i + 1) @ '' ?p'' @ py_str_int (i + 2)
                   @ '' ?o'' @ py_str_int (i + 2) @ '' .'')
            (py_range depth))"

definition generate_bnode_select :: "int \<Rightarrow> string" where
  "generate_bnode_select depth =
     (let part_one = py_join [nl]
            (map (\<lambda>i. py_repeat [tab] (i + 1) @ ''OPTIONAL {'' @ [nl]
                        @ py_repeat [tab] (i + 2) @ ''FILTER(ISBLANK(?o'' @ py_str_int (i + 1) @ ''))'' @ [nl]
                        @ py_repeat [tab] (i + 2) @ ''?o'' @ py_str_int (i + 1) @ '' ?p'' @ py_str_int (i + 2)
                        @ '' ?o'' @ py_str_int (i + 2) @ '' .'')
                 (py_range depth));
          part_two = concat (map (\<lambda>i. [nl] @ py_repeat [tab] (i + 1) @ ''}'') (rev (py_range depth)))
      in part_one @ part_two)"

section \<open>Observations on generated text\<close>

text \<open>Number of positions at which \<open>p\<close> occurs in \<open>s\<close>.\<close>
fun count_sub :: "string \<Rightarrow> string \<Rightarrow> nat" where
  "count_sub p [] = 0"
| "count_sub p (c # cs) = (if prefix p (c # cs) then 1 else 0) + count_sub p cs"

definition var_char :: "char \<Rightarrow> bool" where
  "var_char c \<longleftrightarrow> c \<in> set ''abcdefghijklmnopqrstuvwxyzABCDEFGHIJKLMNOPQRSTUVWXYZ0123456789_''"

text \<open>The SPARQL variables (\<open>?name\<close>) of a query text, in order of occurrence.\<close>
fun sparql_vars :: "string \<Rightarrow> string list" where
  "sparql_vars [] = []"
| "sparql_vars (c # cs) =
     (if c = CHR ''?'' then takeWhile var_char cs # sparql_vars cs else sparql_vars cs)"

text \<open>The nesting the docstring of \<open>generate_bnode_select\<close> draws: block \<open>i\<close> opens, filters on
  \<open>?o\<^sub>i\<close>, traverses from it, holds the deeper blocks, and closes.\<close>
fun nested_optional :: "nat \<Rightarrow> nat \<Rightarrow> string" where
  "nested_optional i 0 = []"
| "nested_optional i (Suc d) =
     replicate i tab @ ''OPTIONAL {'' @ [nl]
     @ replicate (Suc i) tab @ ''FILTER(ISBLANK(?o'' @ str_nat i @ ''))'' @ [nl]
     @ replicate (Suc i) tab @ ''?o'' @ str_nat i @ '' ?p'' @ str_nat (Suc i) @ '' ?o'' @ str_nat (Suc i) @ '' .''
     @ (if d = 0 then [] else [nl] @ nested_optional (Suc i) d)
     @ [nl] @ replicate i tab @ ''}''"


text \<open>The bodies of the two list comprehensions over \<open>range(depth)\<close>, at index \<open>k\<close>.\<close>
definition bnode_triple_line :: "nat \<Rightarrow> string" where
  "bnode_triple_line k = [tab] @ ''?o'' @ str_nat (k + 1) @ '' ?p'' @ str_nat (k + 2)
                          @ '' ?o'' @ str_nat (k + 2) @ '' .''"

definition bnode_open_block :: "nat \<Rightarrow> string" where
  "bnode_open_block k = replicate (k + 1) tab @ ''OPTIONAL {'' @ [nl]
      @ replicate (k + 2) tab @ ''FILTER(ISBLANK(?o'' @ str_nat (k + 1) @ ''))'' @ [nl]
      @ replicate (k + 2) tab @ ''?o'' @ str_nat (k + 1) @ '' ?p'' @ str_nat (k + 2)
      @ '' ?o'' @ str_nat (k + 2) @ '' .''"

definition bnode_close_block :: "nat \<Rightarrow> string" where
  "bnode_close_block k = [nl] @ replicate (k + 1) tab @ ''}''"

section \<open>Errors, terms and item descriptors\<close>

text \<open>The exceptions the modelled functions raise, as values.\<close>
datatype py_error = ValueError string | TypeError | IndexError | AttributeError | PyException string

text \<open>An rdflib term. Every term is a Python \<open>str\<close>; \<open>node_str\<close> is the text an f-string
  placeholder or a \<open>+\<close> concatenation sees.\<close>
datatype node = URIRef string | BNode string | Literal string

fun node_str :: "node \<Rightarrow> string" where
  "node_str (URIRef s) = s"
| "node_str (BNode s) = s"
| "node_str (Literal s) = s"

text \<open>\<open>str(x)\<close> of an optional string inside an f-string: \<open>None\<close> renders as the word None.\<close>
fun py_str_opt :: "string option \<Rightarrow> string" where
  "py_str_opt None = ''None''"
| "py_str_opt (Some s) = s"

text \<open>Truthiness of an optional string and of an optional list.\<close>
fun truthy_str :: "string option \<Rightarrow> bool" where
  "truthy_str None = False"
| "truthy_str (Some s) = (s \<noteq> [])"

fun truthy_list :: "'a list option \<Rightarrow> bool" where
  "truthy_list None = False"
| "truthy_list (Some xs) = (xs \<noteq> [])"

text \<open>The attributes of an item descriptor that the generators read.\<close>
record item =
  uri :: "string option"
  selected_class :: node
  general_class :: string
  link_constructor :: string

section \<open>Fragment builders of the item construct\<close>

definition generate_include_predicates :: "node list option \<Rightarrow> string" where
  "generate_include_predicates include_predicates =
     (if truthy_list include_predicates
      then ''VALUES ?p{'' @ [nl]
           @ py_join [nl] (map (\<lambda>p. ''<'' @ node_str p @ ''>'') (the include_predicates))
           @ [nl] @ ''}''
      else [])"

definition generate_inverse_predicates :: "node list option \<Rightarrow> string" where
  "generate_inverse_predicates inverse_predicates =
     (if truthy_list inverse_predicates
      then ''VALUES ?inbound_p{'' @ [nl]
           @ py_join [nl] (map (\<lambda>p. ''<'' @ node_str p @ ''>'') (the inverse_predicates))
           @ [nl] @ ''}''
      else [])"

text \<open>One pass of the outer loop of \<open>generate_sequence_construct\<close>: the text of one chain.
  \<open>predicate_list[0]\<close> raises IndexError on an empty chain; the indices of
  \<open>range(1, len(predicate_list))\<close> are in range.\<close>
definition sequence_chain :: "string option \<Rightarrow> node list \<Rightarrow> py_error + string" where
  "sequence_chain object_uri predicate_list =
     (case predicate_list of
        [] \<Rightarrow> Inl IndexError
      | p0 # _ \<Rightarrow>
          Inr ([tab] @ ''<'' @ py_str_opt object_uri @ ''> <'' @ node_str p0 @ ''> ?seq_o1 .''
               @ concat (map (\<lambda>i. [nl, tab] @ ''?seq_o'' @ py_str_int (int i) @ '' <''
                                   @ node_str (predicate_list ! i) @ ''> ?seq_o''
                                   @ py_str_int (int i + 1) @ '' .'')
                             [1..<length predicate_list])))"

fun sequence_loop :: "string option \<Rightarrow> string \<Rightarrow> node list list \<Rightarrow> py_error + string" where
  "sequence_loop object_uri all_sequence_construct [] = Inr all_sequence_construct"
| "sequence_loop object_uri all_sequence_construct (predicate_list # rest) =
     (case sequence_chain object_uri predicate_list of
        Inl e \<Rightarrow> Inl e
      | Inr construct_and_where \<Rightarrow>
          sequence_loop object_uri (all_sequence_construct @ construct_and_where) rest)"

definition generate_sequence_construct ::
  "string option \<Rightarrow> node list list option \<Rightarrow> py_error + string" where
  "generate_sequence_construct object_uri sequence_predicates =
     (if truthy_list sequence_predicates
      then sequence_loop object_uri [] (the sequence_predicates)
      else Inr [])"

text \<open>The reading of a rendered chain as triples: the subject of the first triple is given, the
  object of triple \<open>i\<close> is the variable \<open>?seq_o\<^sub>i\<close>, and it is the subject of the next.\<close>
definition seq_var :: "nat \<Rightarrow> string" where
  "seq_var i = ''?seq_o'' @ str_nat i"

fun chain_triples :: "string \<Rightarrow> nat \<Rightarrow> string list \<Rightarrow> (string \<times> string \<times> string) list" where
  "chain_triples subj i [] = []"
| "chain_triples subj i (p # ps) = (subj, ''<'' @ p @ ''>'', seq_var i) # chain_triples (seq_var i) (Suc i) ps"

definition render_triple :: "string \<times> string \<times> string \<Rightarrow> string" where
  "render_triple t = (case t of (s, p, ob) \<Rightarrow> [tab] @ s @ '' '' @ p @ '' '' @ ob @ '' .'')"

definition render_chain :: "(string \<times> string \<times> string) list \<Rightarrow> string" where
  "render_chain ts = py_join [nl] (map render_triple ts)"

section \<open>The profile graph, as the resolvers query it\<close>

text \<open>\<open>profiles_graph_cache\<close> is a module-level rdflib graph that the resolvers read through
  four methods. The graph is a parameter of the model: a record of those four methods.
  \<open>None\<close> in a pattern position is rdflib's wildcard.\<close>
datatype py_value = PyNone | PyInt int | PyNode node

record profile_graph =
  g_objects :: "node option \<Rightarrow> node \<Rightarrow> node list"
  g_triples_choices :: "node list \<Rightarrow> node \<Rightarrow> node option \<Rightarrow> (node \<times> node \<times> node) list"
  g_value :: "node option \<Rightarrow> node \<Rightarrow> py_value \<Rightarrow> py_value"
  g_items :: "node \<Rightarrow> py_error + node list"

text \<open>A graph held as a list of triples, with the RDF lists it contains given apart, for
  running the resolvers on concrete profiles.\<close>
definition match_pos :: "node option \<Rightarrow> node \<Rightarrow> bool" where
  "match_pos pat n = (case pat of None \<Rightarrow> True | Some m \<Rightarrow> m = n)"

definition triples_matching ::
  "(node \<times> node \<times> node) list \<Rightarrow> node option \<Rightarrow> node option \<Rightarrow> node option \<Rightarrow> (node \<times> node \<times> node) list" where
  "triples_matching ts s p ob =
     filter (\<lambda>t. match_pos s (fst t) \<and> match_pos p (fst (snd t)) \<and> match_pos ob (snd (snd t))) ts"

definition list_graph :: "(node \<times> node \<times> node) list \<Rightarrow> (node \<times> node list) list \<Rightarrow> profile_graph" where
  "list_graph ts rdf_lists =
     \<lparr> g_objects = (\<lambda>s p. map (\<lambda>t. snd (snd t)) (triples_matching ts s (Some p) None)),
       g_triples_choices = (\<lambda>ss p ob.
          if ss = [] then triples_matching ts None (Some p) ob
          else concat (map (\<lambda>s. triples_matching ts (Some s) (Some p) ob) ss)),
       g_value = (\<lambda>s p dflt.
          if s = None then PyNone
          else (case triples_matching ts s (Some p) None of [] \<Rightarrow> dflt | t # _ \<Rightarrow> PyNode (snd (snd t)))),
       g_items = (\<lambda>l. case map_of rdf_lists l of None \<Rightarrow> Inr [] | Some xs \<Rightarrow> Inr xs) \<rparr>"

abbreviation ALTREXT :: "string \<Rightarrow> node" where
  "ALTREXT name \<equiv> URIRef (''http://www.w3.org/ns/dx/conneg/altr-ext#'' @ name)"

abbreviation SH :: "string \<Rightarrow> node" where
  "SH name \<equiv> URIRef (''http://www.w3.org/ns/shacl#'' @ name)"

section \<open>Predicate resolution\<close>

text \<open>\<open>None\<close> when the profile has no node shape at all, else the shapes that target the class.\<close>
definition get_relevant_shape_bns_for_profile ::
  "profile_graph \<Rightarrow> node \<Rightarrow> node option \<Rightarrow> node list option" where
  "get_relevant_shape_bns_for_profile g sel_class profile =
     (let shape_bns = g_objects g profile (ALTREXT ''hasNodeShape'')
      in if shape_bns = [] then None
         else Some (map fst (g_triples_choices g shape_bns (SH ''targetClass'') (Some sel_class))))"

definition get_listing_predicates ::
  "profile_graph \<Rightarrow> node option \<Rightarrow> node \<Rightarrow> node list \<times> node list \<times> node list \<times> node list" where
  "get_listing_predicates g profile sel_class =
     (let shape_bns = get_relevant_shape_bns_for_profile g sel_class profile
      in if \<not> truthy_list shape_bns then ([], [], [], [])
         else
           let inbound_children = map (\<lambda>i. snd (snd i)) (g_triples_choices g (the shape_bns) (ALTREXT ''inboundChildren'') None);
               inbound_parents = map (\<lambda>i. snd (snd i)) (g_triples_choices g (the shape_bns) (ALTREXT ''inboundParents'') None);
               outbound_children = map (\<lambda>i. snd (snd i)) (g_triples_choices g (the shape_bns) (ALTREXT ''outboundChildren'') None);
               outbound_parents = map (\<lambda>i. snd (snd i)) (g_triples_choices g (the shape_bns) (ALTREXT ''outboundParents'') None)
           in (inbound_children, inbound_parents, outbound_children, outbound_parents))"

text \<open>The second component of the result of \<open>get_item_predicates\<close>: \<open>None\<close>, or the \<open>...\<close>
  placeholder the source binds \<open>excludes\<close> to.\<close>
datatype excludes_value = ExcludesNone | ExcludesEllipsis

text \<open>The comprehension over \<open>_sequence_nodes\<close>: each list head is read with \<open>items\<close>, and an
  exception of a read ends the comprehension.\<close>
fun read_sequence_paths :: "profile_graph \<Rightarrow> node list \<Rightarrow> py_error + node list list" where
  "read_sequence_paths g [] = Inr []"
| "read_sequence_paths g (i # rest) =
     (case g_items g i of
        Inl e \<Rightarrow> Inl e
      | Inr path \<Rightarrow> (case read_sequence_paths g rest of Inl e \<Rightarrow> Inl e | Inr paths \<Rightarrow> Inr (path # paths)))"

definition get_item_predicates ::
  "profile_graph \<Rightarrow> node option \<Rightarrow> node \<Rightarrow>
     py_error + (node list option \<times> excludes_value \<times> node list option \<times> node list list option)" where
  "get_item_predicates g profile sel_class =
     (let shape_bns = get_relevant_shape_bns_for_profile g sel_class profile
      in if \<not> truthy_list shape_bns then Inr (None, ExcludesNone, None, None)
         else
           let includes = map (\<lambda>i. snd (snd i)) (g_triples_choices g (the shape_bns) (SH ''path'') None);
               inverses = map (\<lambda>i. snd (snd i)) (g_triples_choices g (the shape_bns) (SH ''inversePath'') None);
               sequence_nodes = map (\<lambda>i. snd (snd i)) (g_triples_choices g (the shape_bns) (SH ''sequencePath'') None)
           in case read_sequence_paths g sequence_nodes of
                Inl e \<Rightarrow> Inl e
              | Inr sequence_paths \<Rightarrow> Inr (Some includes, ExcludesEllipsis, Some inverses, Some sequence_paths))"

section \<open>Listing construct\<close>

text \<open>\<open>" ".join('<' + pred + '>' for pred in preds)\<close>.\<close>
definition values_of :: "node list \<Rightarrow> string" where
  "values_of preds = py_join '' '' (map (\<lambda>pred. ''<'' @ node_str pred @ ''>'') preds)"

definition generate_outbound_predicates :: "item \<Rightarrow> node list \<Rightarrow> node list \<Rightarrow> string" where
  "generate_outbound_predicates it outbound_children outbound_parents =
     (if truthy_str (uri it) then
        (if outbound_children \<noteq> [] then
           ''<'' @ py_str_opt (uri it) @ ''> ?outbound_children ?item .'' @ [nl]
           @ ''            ?item dcterms:identifier ?outbound_children_id .'' @ [nl]
           @ ''            FILTER(DATATYPE(?outbound_children_id) = xsd:token)'' @ [nl]
           @ ''            VALUES ?outbound_children { '' @ values_of outbound_children @ '' }'' @ [nl]
         else [])
        @ (if outbound_parents \<noteq> [] then
           ''<'' @ py_str_opt (uri it) @ ''> ?outbound_parents ?item .'' @ [nl]
           @ ''            ?item dcterms:identifier ?outbound_parents_id .'' @ [nl]
           @ ''            FILTER(DATATYPE(?outbound_parents_id) = xsd:token)'' @ [nl]
           @ ''            VALUES ?outbound_parents { '' @ values_of outbound_parents @ '' }'' @ [nl]
         else [])
        @ (if outbound_children = [] \<and> outbound_parents = [] then
           ''VALUES ?outbound_children {}'' @ [nl] @ ''VALUES ?outbound_parents {}''
         else [])
      else [])"

definition generate_inbound_predicates :: "item \<Rightarrow> node list \<Rightarrow> node list \<Rightarrow> string" where
  "generate_inbound_predicates it inbound_children inbound_parents =
     (if inbound_children = [] \<and> inbound_parents = [] then []
      else
        (if inbound_children \<noteq> [] then
           ''?inbound_child_s ?inbound_child <'' @ py_str_opt (uri it) @ ''> ;'' @ [nl]
           @ ''        dcterms:identifier ?inbound_children_id .'' @ [nl]
           @ ''        FILTER(DATATYPE(?inbound_children_id) = xsd:token)'' @ [nl]
           @ ''        VALUES ?inbound_child { '' @ values_of inbound_children @ '' }'' @ [nl]
         else [])
        @ (if inbound_parents \<noteq> [] then
           ''?inbound_parent_s ?inbound_parent <'' @ py_str_opt (uri it) @ ''> ;'' @ [nl]
           @ ''        dcterms:identifier ?inbound_parent_id .'' @ [nl]
           @ ''        FILTER(DATATYPE(?inbound_parent_id) = xsd:token)'' @ [nl]
           @ ''        VALUES ?inbound_parent { '' @ values_of inbound_parents @ '' }'' @ [nl]
         else []))"

definition generate_id_listing_binds ::
  "item \<Rightarrow> node list \<Rightarrow> node list \<Rightarrow> node list \<Rightarrow> node list \<Rightarrow> string" where
  \<open>generate_id_listing_binds it ic ip oc op =
     (let binds =
        (if ic \<noteq> [] then
           ''BIND(CONCAT("'' @ link_constructor it @ ''", "/", STR(?inbound_children_id))AS ?inbound_children_link)'' @ [nl]
         else [])
        @ (if oc \<noteq> [] then
           ''BIND(CONCAT("'' @ link_constructor it @ ''", "/", STR(?outbound_children_id))AS ?outbound_children_link)'' @ [nl]
         else [])
        @ (if ip \<noteq> [] then
           ''BIND("'' @ link_constructor it @ ''" AS ?inbound_parent_link)'' @ [nl]
         else [])
        @ (if op \<noteq> [] then
           ''BIND("'' @ link_constructor it @ ''" AS ?outbound_parent_link)'' @ [nl]
         else [])
      in if binds = [] then
           binds @ ''BIND(CONCAT("'' @ link_constructor it @ ''", "/", STR(?outbound_id))AS ?outbound_general_link)'' @ [nl]
         else binds)\<close>

definition generate_listing_construct ::
  "profile_graph \<Rightarrow> item \<Rightarrow> node option \<Rightarrow> int option \<Rightarrow> int option \<Rightarrow> string" where
  "generate_listing_construct g parent_item profile page per_page =
     (case get_listing_predicates g profile (selected_class parent_item) of
        (inbound_children, inbound_parents, outbound_children, outbound_parents) \<Rightarrow>
     if truthy_str (uri parent_item) \<and> inbound_children = [] \<and> inbound_parents = []
        \<and> outbound_children = [] \<and> outbound_parents = []
     then []
     else
       ''PREFIX dcterms: <http://purl.org/dc/terms/>'' @ [nl]
       @ ''PREFIX prez: <https://kurrawong.net/prez/>'' @ [nl]
       @ ''PREFIX rdf: <http://www.w3.org/1999/02/22-rdf-syntax-ns#>'' @ [nl]
       @ ''PREFIX rdfs: <http://www.w3.org/2000/01/rdf-schema#>'' @ [nl]
       @ ''PREFIX xsd: <http://www.w3.org/2001/XMLSchema#>'' @ [nl]
       @ ''PREFIX skos: <http://www.w3.org/2004/02/skos/core#>'' @ [nl]
       @ [nl]
       @ ''CONSTRUCT {'' @ [nl]
       @ (if outbound_children \<noteq> [] \<or> truthy_str (uri parent_item)
          then ''<'' @ py_str_opt (uri parent_item) @ ''> ?outbound_children ?item .''
               @ ''?item prez:link ?outbound_children_link .'' @ [nl]
          else [])
       @ (if outbound_parents \<noteq> [] \<or> truthy_str (uri parent_item)
          then ''<'' @ py_str_opt (uri parent_item) @ ''> ?outbound_parents ?item .''
               @ ''?item prez:link ?outbound_parents_link .'' @ [nl]
          else [])
       @ (if inbound_children \<noteq> []
          then ''?inbound_child_s ?inbound_child <'' @ py_str_opt (uri parent_item) @ ''> ;''
               @ ''prez:link ?inbound_children_link .'' @ [nl]
          else [])
       @ (if inbound_parents \<noteq> []
          then ''?inbound_parent_s ?inbound_parent <'' @ py_str_opt (uri parent_item) @ ''> ;''
               @ ''prez:link ?inbound_parent_link .'' @ [nl]
          else [])
       @ ''        ?item rdfs:label ?label .'' @ [nl]
       @ (if \<not> truthy_str (uri parent_item)
          then ''prez:memberList a rdf:Bag ;'' @ [nl]
               @ ''                rdfs:member ?item .'' @ [nl]
               @ ''    ?item prez:link ?outbound_general_link''
          else [])
       @ '' '' @ ''    }'' @ [nl]
       @ ''WHERE {'' @ [nl]
       @ generate_outbound_predicates parent_item outbound_children outbound_parents @ '' ''
       @ generate_inbound_predicates parent_item inbound_children inbound_parents @ '' ''
       @ ''    ''
       @ (if \<not> truthy_str (uri parent_item)
          then ''?item a <'' @ general_class parent_item @ ''> .'' @ [nl]
               @ ''    ?item dcterms:identifier ?outbound_id . ''
          else [])
       @ [nl]
       @ ''    ?item rdfs:label|dcterms:title|skos:prefLabel ?label .'' @ [nl]
       @ generate_id_listing_binds parent_item inbound_children inbound_parents outbound_children outbound_parents
       @ [nl]
       @ ''    } ''
       @ (case (page, per_page) of
            (Some pg, Some pp) \<Rightarrow> ''LIMIT '' @ py_str_int pp @ '' OFFSET '' @ py_str_int ((pg - 1) * pp)
          | _ \<Rightarrow> [])
       @ [nl] @ ''    '')"

section \<open>Item construct\<close>

text \<open>What \<open>range(bnode_depth)\<close> accepts: a Python int. \<open>as_index\<close> is rdflib's reading of a
  term as an integer index, a parameter; \<open>None\<close> (no such reading) is a TypeError.\<close>
definition depth_of :: "(node \<Rightarrow> int option) \<Rightarrow> py_value \<Rightarrow> int option" where
  "depth_of as_index v = (case v of PyNone \<Rightarrow> None | PyInt n \<Rightarrow> Some n | PyNode n \<Rightarrow> as_index n)"

text \<open>The body of \<open>generate_item_construct\<close>: the text it returns, or the exception that one
  of the calls it makes raises.\<close>
definition item_construct_text ::
  "profile_graph \<Rightarrow> (node \<Rightarrow> int option) \<Rightarrow> item \<Rightarrow> node option \<Rightarrow> py_error + string" where
  "item_construct_text g as_index it profile =
     (let object_uri = uri it in
      case get_item_predicates g profile (selected_class it) of
        Inl e \<Rightarrow> Inl e
      | Inr (include_predicates, exclude_predicates, inverse_predicates, sequence_predicates) \<Rightarrow>
     let bnode_depth = g_value g profile (ALTREXT ''hasBNodeDepth'') (PyInt 2) in
     case (if truthy_list sequence_predicates
           then generate_sequence_construct object_uri sequence_predicates else Inr []) of
        Inl e \<Rightarrow> Inl e
      | Inr sequence_text \<Rightarrow>
     case depth_of as_index bnode_depth of
        None \<Rightarrow> Inl TypeError
      | Some depth \<Rightarrow>
     Inr (''PREFIX rdfs: <http://www.w3.org/2000/01/rdf-schema#>'' @ [nl] @ [nl]
          @ ''CONSTRUCT {'' @ [nl]
          @ [tab] @ ''<'' @ py_str_opt object_uri @ ''> ?p ?o1 .'' @ [nl]
          @ sequence_text @ [nl]
          @ (if truthy_list inverse_predicates
             then [tab] @ ''?s ?inbound_p <'' @ py_str_opt object_uri @ ''> .'' else []) @ [nl]
          @ generate_bnode_construct depth @ '' '' @ [nl] @ ''}'' @ [nl]
          @ ''WHERE {'' @ [nl]
          @ ''    {'' @ [nl]
          @ ''    <'' @ py_str_opt object_uri @ ''> ?p ?o1 . '' @ [nl] @ '' ''
          @ (if truthy_list sequence_predicates then sequence_text else [nl]) @ '' ''
          @ ''    '' @ (if truthy_list inverse_predicates
                        then ''?s ?inbound_p <'' @ py_str_opt object_uri @ ''>'' @ [nl] else [nl]) @ '' ''
          @ ''    '' @ generate_include_predicates include_predicates @ '' ''
          @ ''    '' @ generate_inverse_predicates inverse_predicates @ '' ''
          @ ''    '' @ generate_bnode_select depth @ '' ''
          @ ''    } ''
          @ ''}'' @ [nl]))"

text \<open>The process state that two calls share: the store of the \<open>lru_cache(maxsize=128)\<close> around
  \<open>generate_item_construct\<close>, most recently used entry first, and a probe that counts the
  runs of \<open>get_item_predicates\<close>, each of which reads the profile graph.\<close>
record world =
  item_cache :: "((item \<times> node option) \<times> string) list"
  resolutions :: nat

text \<open>\<open>get_item_predicates\<close> carries no decorator: every call runs its body.\<close>
definition get_item_predicates_call ::
  "profile_graph \<Rightarrow> node option \<Rightarrow> node \<Rightarrow> world \<Rightarrow>
     (py_error + (node list option \<times> excludes_value \<times> node list option \<times> node list list option)) \<times> world" where
  "get_item_predicates_call g profile sel_class w =
     (get_item_predicates g profile sel_class, w\<lparr>resolutions := Suc (resolutions w)\<rparr>)"

text \<open>A run of the undecorated body of \<open>generate_item_construct\<close>: one call of
  \<open>get_item_predicates\<close>, then the text.\<close>
definition generate_item_construct_body ::
  "profile_graph \<Rightarrow> (node \<Rightarrow> int option) \<Rightarrow> item \<Rightarrow> node option \<Rightarrow> world \<Rightarrow> (py_error + string) \<times> world" where
  "generate_item_construct_body g as_index it profile w =
     (case get_item_predicates_call g profile (selected_class it) w of
        (_, w') \<Rightarrow> (item_construct_text g as_index it profile, w'))"

definition lru_maxsize :: nat where
  "lru_maxsize = 128"

text \<open>\<open>generate_item_construct\<close> as callers see it, behind \<open>functools.lru_cache\<close>: a hit returns
  the stored text and makes the entry the most recent; a miss runs the body, and stores the
  text it returns (an exception stores nothing), dropping the least recently used entry
  when the store is full.\<close>
definition generate_item_construct ::
  "profile_graph \<Rightarrow> (node \<Rightarrow> int option) \<Rightarrow> item \<Rightarrow> node option \<Rightarrow> world \<Rightarrow> (py_error + string) \<times> world" where
  "generate_item_construct g as_index it profile w =
     (case map_of (item_cache w) (it, profile) of
        Some q \<Rightarrow>
          (Inr q, w\<lparr>item_cache := ((it, profile), q) # filter (\<lambda>e. fst e \<noteq> (it, profile)) (item_cache w)\<rparr>)
      | None \<Rightarrow>
          (case generate_item_construct_body g as_index it profile w of
             (Inl e, w') \<Rightarrow> (Inl e, w')
           | (Inr q, w') \<Rightarrow>
               (Inr q, w'\<lparr>item_cache := take lru_maxsize (((it, profile), q) # item_cache w')\<rparr>)))"

section \<open>The SpacePrez service queries\<close>

text \<open>The names the service module imports from \<open>prez.services.sparql_utils\<close>: namespaces and
  shared query fragments. They are parameters of the model.\<close>
record sparql_utils =
  DCAT :: string
  DCTERMS :: string
  RDFS :: string
  XSD :: string
  construct_all_prop_obj_info :: string
  construct_all_bnode_prop_obj_info :: string
  get_all_bnode_prop_obj_info :: string
  get_all_prop_obj_info :: string

text \<open>The pair a store call returns: success with its payload, or failure with the code and
  the message of the error.\<close>
datatype 'r store_reply = StoreOk 'r | StoreFailed string string

text \<open>A store call takes the query text and the name of the target, and acts on the state of
  the store.\<close>
type_synonym ('r, 's) store_call = "string \<Rightarrow> string \<Rightarrow> 's \<Rightarrow> 'r store_reply \<times> 's"

definition store_result :: "'r store_reply \<Rightarrow> py_error + 'r" where
  "store_result r =
     (case r of
        StoreOk payload \<Rightarrow> Inr payload
      | StoreFailed code message \<Rightarrow>
          Inl (PyException (''SPARQL query error code '' @ code @ '': '' @ message)))"

text \<open>The text \<open>q\<close> of \<open>get_dataset_construct\<close>.\<close>
definition dataset_construct_query :: "sparql_utils \<Rightarrow> string option \<Rightarrow> string option \<Rightarrow> string" where
  \<open>dataset_construct_query u dataset_id dataset_uri =
     (let query_by_id =
            [nl] @ ''        ?d dcterms:identifier "'' @ py_str_opt dataset_id @ ''"^^xsd:token ;'' @ [nl]
            @ ''            a dcat:Dataset .'' @ [nl]
            @ ''        BIND("'' @ py_str_opt dataset_id @ ''" AS ?id)'' @ [nl]
            @ ''    '';
          query_by_uri =
            [nl] @ ''        BIND (<'' @ py_str_opt dataset_uri @ ''> as ?d)'' @ [nl]
            @ ''        ?d a dcat:Dataset .'' @ [nl]
            @ ''    ''
      in [nl] @ ''        PREFIX dcat: <'' @ DCAT u @ ''>'' @ [nl]
         @ ''        PREFIX dcterms: <'' @ DCTERMS u @ ''>'' @ [nl]
         @ ''        PREFIX rdfs: <'' @ RDFS u @ ''>'' @ [nl]
         @ ''        PREFIX xsd: <'' @ XSD u @ ''>'' @ [nl]
         @ ''        CONSTRUCT {'' @ [nl]
         @ ''            ?d ?p1 ?o1 ;'' @ [nl]
         @ ''                rdfs:member ?coll .'' @ [nl]
         @ ''            ?coll dcterms:identifier ?coll_id ;'' @ [nl]
         @ ''                dcterms:title ?coll_title .'' @ [nl]
         @ ''            '' @ construct_all_prop_obj_info u @ [nl]
         @ ''            '' @ construct_all_bnode_prop_obj_info u @ [nl]
         @ ''        }'' @ [nl]
         @ ''        WHERE {'' @ [nl]
         @ ''            '' @ (if dataset_id \<noteq> None then query_by_id else query_by_uri) @ [nl]
         @ ''            ?d ?p1 ?o1 ;'' @ [nl]
         @ ''                rdfs:member ?coll .'' @ [nl]
         @ ''            ?coll dcterms:identifier ?coll_id ;'' @ [nl]
         @ ''                dcterms:title ?coll_title .'' @ [nl]
         @ ''            '' @ get_all_bnode_prop_obj_info u @ [nl]
         @ ''            '' @ get_all_prop_obj_info u @ [nl]
         @ ''        }'' @ [nl]
         @ ''    '')\<close>

definition get_dataset_construct ::
  "sparql_utils \<Rightarrow> ('r, 's) store_call \<Rightarrow> string option \<Rightarrow> string option \<Rightarrow> 's \<Rightarrow> (py_error + 'r) \<times> 's" where
  "get_dataset_construct u sparql_construct dataset_id dataset_uri st =
     (if dataset_id = None \<and> dataset_uri = None
      then (Inl (ValueError ''Either an ID or a URI must be provided for a SPARQL query''), st)
      else
        let q = dataset_construct_query u dataset_id dataset_uri in
        case sparql_construct q ''SpacePrez'' st of (r, st') \<Rightarrow> (store_result r, st'))"

text \<open>The text \<open>q\<close> of \<open>get_dataset_label\<close>.\<close>
definition dataset_label_query :: "sparql_utils \<Rightarrow> string \<Rightarrow> string" where
  \<open>dataset_label_query u dataset_id =
     [nl] @ ''        PREFIX dcat: <'' @ DCAT u @ ''>'' @ [nl]
     @ ''        PREFIX dcterms: <'' @ DCTERMS u @ ''>'' @ [nl]
     @ ''        PREFIX xsd: <'' @ XSD u @ ''>'' @ [nl]
     @ ''        SELECT ?title'' @ [nl]
     @ ''        WHERE {'' @ [nl]
     @ ''            ?d a dcat:Dataset ;'' @ [nl]
     @ ''                dcterms:title ?title ;'' @ [nl]
     @ ''                dcterms:identifier ?d_id .'' @ [nl]
     @ ''            FILTER (STR(?d_id) = "'' @ dataset_id @ ''" && DATATYPE(?d_id) = xsd:token)'' @ [nl]
     @ ''            FILTER(lang(?title) = "" || lang(?title) = "en")'' @ [nl]
     @ ''        } LIMIT 1'' @ [nl]
     @ ''    ''\<close>

definition get_dataset_label ::
  "sparql_utils \<Rightarrow> ('r, 's) store_call \<Rightarrow> string \<Rightarrow> 's \<Rightarrow> (py_error + 'r) \<times> 's" where
  "get_dataset_label u sparql_query dataset_id st =
     (let q = dataset_label_query u dataset_id in
      case sparql_query q ''SpacePrez'' st of (r, st') \<Rightarrow> (store_result r, st'))"

text \<open>A store that records the texts it is sent and answers each with success.\<close>
definition recording_store :: "(unit, string list) store_call" where
  "recording_store q target sent = (StoreOk (), sent @ [q])"

text \<open>The lexical rule of a double-quoted SPARQL string, read from just after the opening
  quote: the content up to the closing quote and the text after it. A backslash takes the
  next character with it; a line break inside the string is an error.\<close>
abbreviation dquote :: char where "dquote \<equiv> CHR 0x22"
abbreviation backslash :: char where "backslash \<equiv> CHR 0x5C"
abbreviation cr :: char where "cr \<equiv> CHR 0x0D"

fun scan_string_literal :: "string \<Rightarrow> (string \<times> string) option" where
  "scan_string_literal [] = None"
| "scan_string_literal (c # cs) =
     (if c = dquote then Some ([], cs)
      else if c = nl \<or> c = cr then None
      else if c = backslash then
        (case cs of
           [] \<Rightarrow> None
         | d # ds \<Rightarrow> map_option (\<lambda>(lit, rest). (c # d # lit, rest)) (scan_string_literal ds))
      else map_option (\<lambda>(lit, rest). (c # lit, rest)) (scan_string_literal cs))"

section \<open>Profile and mediatype negotiation\<close>

text \<open>The \<open>IF\<close> lines are collected in a Python set before they are joined: \<open>set_order\<close> is the
  order in which the set yields them, a parameter. \<open>str_weight\<close> is \<open>str\<close> on a weight.\<close>
definition generate_mediatype_if_statements ::
  "(string list \<Rightarrow> string list) \<Rightarrow> ('w \<Rightarrow> string) \<Rightarrow> ('w \<times> string) list \<Rightarrow> string" where
  \<open>generate_mediatype_if_statements set_order str_weight requested_mediatypes =
     (let line_join = '','' @ [nl] in
      ''BIND('' @ [nl]
      @ py_join line_join
          (set_order (map (\<lambda>tup. ''IF(?format="'' @ snd tup @ ''", "'' @ str_weight (fst tup) @ ''"'')
                          requested_mediatypes))
      @ '', ""'' @ py_repeat '')'' (int (length requested_mediatypes)) @ [nl]
      @ ''AS ?req_format)'')\<close>

definition select_profile_mediatype ::
  "(string list \<Rightarrow> string list) \<Rightarrow> ('w \<Rightarrow> string) \<Rightarrow> string list \<Rightarrow> string option
     \<Rightarrow> ('w \<times> string) list option \<Rightarrow> string" where
  "select_profile_mediatype set_order str_weight classes requested_profile requested_mediatypes =
     [nl]
     @ ''PREFIX dcat: <http://www.w3.org/ns/dcat#>'' @ [nl]
     @ ''PREFIX sh: <http://www.w3.org/ns/shacl#>'' @ [nl]
     @ ''PREFIX geo: <http://www.opengis.net/ont/geosparql#>'' @ [nl]
     @ ''PREFIX rdfs: <http://www.w3.org/2000/01/rdf-schema#>'' @ [nl]
     @ ''PREFIX altr-ext: <http://www.w3.org/ns/dx/conneg/altr-ext#>'' @ [nl]
     @ ''PREFIX dcterms: <http://purl.org/dc/terms/>'' @ [nl]
     @ ''PREFIX prez: <https://kurrawong.net/prez/>'' @ [nl]
     @ [nl]
     @ ''SELECT ?profile ?class (count(?mid) as ?distance) ?req_profile ?def_profile ?format ?req_format ?def_format'' @ [nl]
     @ [nl]
     @ ''WHERE {'' @ [nl]
     @ ''  VALUES ?class {'' @ py_join '' '' (map (\<lambda>klass. ''<'' @ klass @ ''>'') classes) @ ''}'' @ [nl]
     @ ''  ?class rdfs:subClassOf* ?mid .'' @ [nl]
     @ ''  ?mid rdfs:subClassOf* ?general_class .'' @ [nl]
     @ ''  VALUES ?general_class { dcat:Dataset geo:FeatureCollection prez:FeatureCollectionList prez:FeatureList geo:Feature'' @ [nl]
     @ ''  skos:ConceptScheme skos:Concept skos:Collection prez:DatasetList prez:VocPrezCollectionList prez:SchemesList'' @ [nl]
     @ ''  prez:CatalogList dcat:Catalog dcat:Resource }'' @ [nl]
     @ ''  ?profile altr-ext:constrainsClass ?class ;'' @ [nl]
     @ ''           altr-ext:hasResourceFormat ?format .'' @ [nl]
     @ ''  '' @ (if truthy_str requested_profile
                then ''BIND(?profile=<'' @ py_str_opt requested_profile @ ''> as ?req_profile)'' else []) @ [nl]
     @ ''  BIND(EXISTS { ?shape sh:targetClass ?class ;'' @ [nl]
     @ ''                       altr-ext:hasDefaultProfile ?profile } AS ?def_profile)'' @ [nl]
     @ ''  '' @ (if truthy_list requested_mediatypes
                then generate_mediatype_if_statements set_order str_weight (the requested_mediatypes)
                else []) @ [nl]
     @ ''  BIND(EXISTS { ?profile altr-ext:hasDefaultResourceFormat ?format } AS ?def_format)'' @ [nl]
     @ ''}'' @ [nl]
     @ [nl]
     @ ''GROUP BY ?class ?profile ?req_profile ?def_profile ?format ?req_format ?def_format'' @ [nl]
     @ ''ORDER BY DESC(?req_profile) DESC(?distance) DESC(?def_profile) DESC(?req_format) DESC(?def_format)'' @ [nl]
     @ ''LIMIT 1'' @ [nl]
     @ ''        ''"

text \<open>The text after the last occurrence of a character: after the last closing brace of a
  SELECT text come its solution modifiers.\<close>
definition text_after_last :: "char \<Rightarrow> string \<Rightarrow> string" where
  "text_after_last c q = rev (takeWhile (\<lambda>x. x \<noteq> c) (rev q))"

section \<open>Concrete inputs\<close>

text \<open>A reading of terms as indices that accepts none.\<close>
definition no_index :: "node \<Rightarrow> int option" where
  "no_index n = None"

definition empty_graph :: profile_graph where
  "empty_graph = list_graph [] []"

definition fresh_world :: world where
  "fresh_world = \<lparr> item_cache = [], resolutions = 0 \<rparr>"

text \<open>An item descriptor with no URI.\<close>
definition item_without_uri :: item where
  "item_without_uri = \<lparr> uri = None, selected_class = URIRef ''http://www.w3.org/ns/dcat#Dataset'',
       general_class = ''http://www.w3.org/ns/dcat#Dataset'', link_constructor = ''/s/datasets'' \<rparr>"

definition example_profile :: "node option" where
  "example_profile = Some (URIRef ''https://w3id.org/profile/oai'')"

definition example_utils :: sparql_utils where
  "example_utils = \<lparr> DCAT = ''http://www.w3.org/ns/dcat#'', DCTERMS = ''http://purl.org/dc/terms/'',
       RDFS = ''http://www.w3.org/2000/01/rdf-schema#'', XSD = ''http://www.w3.org/2001/XMLSchema#'',
       construct_all_prop_obj_info = [], construct_all_bnode_prop_obj_info = [],
       get_all_bnode_prop_obj_info = [], get_all_prop_obj_info = [] \<rparr>"

text \<open>The text of the template of \<open>get_dataset_label\<close> after the quote that closes the
  identifier.\<close>
definition dataset_label_rest :: string where
  \<open>dataset_label_rest =
     '' && DATATYPE(?d_id) = xsd:token)'' @ [nl]
     @ ''            FILTER(lang(?title) = "" || lang(?title) = "en")'' @ [nl]
     @ ''        } LIMIT 1'' @ [nl]
     @ ''    ''\<close>

text \<open>A profile whose shape for the class \<open>C\<close> declares two sequence paths, \<open>a, b\<close> and \<open>c, d\<close>,
  and an item of that class.\<close>
definition two_path_graph :: profile_graph where
  "two_path_graph =
     list_graph
       [(URIRef ''https://w3id.org/profile/oai'', ALTREXT ''hasNodeShape'', BNode ''shape''),
        (BNode ''shape'', SH ''targetClass'', URIRef ''C''),
        (BNode ''shape'', SH ''sequencePath'', BNode ''l1''),
        (BNode ''shape'', SH ''sequencePath'', BNode ''l2'')]
       [(BNode ''l1'', [URIRef ''a'', URIRef ''b'']), (BNode ''l2'', [URIRef ''c'', URIRef ''d''])]"

definition two_path_item :: item where
  "two_path_item = \<lparr> uri = Some ''u'', selected_class = URIRef ''C'',
       general_class = ''C'', link_constructor = ''/items'' \<rparr>"

section \<open>The query syntax tree of the full-text search builder\<close>

text \<open>The classes of the SPARQL grammar library that \<open>SearchQueryFusekiFTS\<close> instantiates, each
  with the fields the builder sets.\<close>
datatype Var = Var string
datatype IRI = IRI string
datatype RDFLiteral = RDFLiteral string
datatype GraphTerm = GraphTerm_IRI IRI | GraphTerm_Literal RDFLiteral
datatype VarOrTerm = VarOrTerm_Var Var | VarOrTerm_Term GraphTerm

text \<open>\<open>PrimaryExpression(content=...)\<close>: a variable, a literal, or a built-in call with its name
  and its arguments.\<close>
datatype PrimaryExpression =
    Content_Var Var
  | Content_Literal RDFLiteral
  | Content_BuiltInCall string "PrimaryExpression list"

definition create_with_one_expr :: "string \<Rightarrow> PrimaryExpression \<Rightarrow> PrimaryExpression" where
  "create_with_one_expr function_name e = Content_BuiltInCall function_name [e]"

definition create_with_n_expr :: "string \<Rightarrow> PrimaryExpression list \<Rightarrow> PrimaryExpression" where
  "create_with_n_expr function_name es = Content_BuiltInCall function_name es"

datatype Expression = from_primary_expression PrimaryExpression

datatype SelectItem = Select_Var Var | Select_As Expression Var
datatype SelectClause = SelectClause (variables_or_all: "SelectItem list")

datatype TripleTerm = Term_Var Var | Term_IRI IRI
datatype TriplesSameSubject = from_spo TripleTerm TripleTerm TripleTerm
datatype ConstructTriples = from_tss_list "TriplesSameSubject list"
datatype ConstructTemplate = ConstructTemplate (construct_triples: ConstructTriples)

datatype PathPrimary = PathPrimary IRI
datatype PathElt = PathElt PathPrimary
datatype PathEltOrInverse = PathEltOrInverse PathElt
datatype PathSequence = PathSequence "PathEltOrInverse list"
datatype PathAlternative = PathAlternative "PathSequence list"
datatype SG_Path = SG_Path PathAlternative
datatype VerbPath = VerbPath SG_Path

datatype GraphNodePath = GraphNodePath_Term VarOrTerm | GraphNodePath_Triples TriplesNodePath
  and TriplesNodePath = TriplesNodePath CollectionPath
  and CollectionPath = CollectionPath "GraphNodePath list"

datatype ObjectPath = ObjectPath GraphNodePath
datatype ObjectListPath = ObjectListPath "ObjectPath list"
datatype PropertyListPathNotEmpty = PropertyListPathNotEmpty "VerbPath \<times> ObjectListPath"
datatype PropertyListPath = PropertyListPath PropertyListPathNotEmpty

datatype SubjectPath = Subject_Term VarOrTerm | Subject_Triples TriplesNodePath
datatype TriplesSameSubjectPath = TriplesSameSubjectPath "SubjectPath \<times> PropertyListPath"

datatype TriplesBlock = TriplesBlock (triples: TriplesSameSubjectPath) (triples_block: "TriplesBlock option")

datatype OrderCondition = OrderCondition Var string
datatype OrderClause = OrderClause "OrderCondition list"
datatype LimitClause = LimitClause int
datatype OffsetClause = OffsetClause int
datatype LimitOffsetClauses = LimitOffsetClauses (limit_clause: LimitClause) (offset_clause: OffsetClause)
datatype SolutionModifier =
  SolutionModifier (order_by_clause: "OrderClause option") (limit_offset: "LimitOffsetClauses option")

datatype GroupGraphPattern = Content_Sub GroupGraphPatternSub | Content_SubSelect SubSelect
  and GroupGraphPatternSub =
    GroupGraphPatternSub "TriplesBlock option" "GraphPatternNotTriples list"
  and GraphPatternNotTriples = GraphPatternNotTriples GroupOrUnionGraphPattern
  and GroupOrUnionGraphPattern = GroupOrUnionGraphPattern "GroupGraphPattern list"
  and SubSelect = SubSelect SelectClause WhereClause SolutionModifier
  and WhereClause = WhereClause GroupGraphPattern

record ConstructQuery =
  construct_template :: ConstructTemplate
  where_clause :: WhereClause
  solution_modifier :: SolutionModifier

section \<open>The full-text search builder\<close>

text \<open>\<open>term.split(" ")\<close>: a cut at every single space character, and at no other.\<close>
fun py_split_space :: "string \<Rightarrow> string list" where
  "py_split_space [] = [[]]"
| "py_split_space (c # cs) =
     (if c = CHR '' '' then [] # py_split_space cs
      else (case py_split_space cs of w # ws \<Rightarrow> (c # w) # ws | [] \<Rightarrow> [[c]]))"

text \<open>The inner function \<open>_generate_fts_triples_block\<close>; \<open>search_term\<close> is the variable \<open>term\<close>
  of the enclosing constructor.\<close>
definition generate_fts_triples_block :: "string \<Rightarrow> string list \<Rightarrow> Var \<Rightarrow> TriplesBlock" where
  "generate_fts_triples_block search_term preds sr_uri =
     TriplesBlock
       (TriplesSameSubjectPath
         (Subject_Triples (TriplesNodePath (CollectionPath
            [GraphNodePath_Term (VarOrTerm_Var sr_uri),
             GraphNodePath_Term (VarOrTerm_Var (Var ''weight'')),
             GraphNodePath_Term (VarOrTerm_Var (Var ''match'')),
             GraphNodePath_Term (VarOrTerm_Var (Var ''g'')),
             GraphNodePath_Term (VarOrTerm_Var (Var ''pred''))])),
          PropertyListPath (PropertyListPathNotEmpty
            (VerbPath (SG_Path (PathAlternative [PathSequence [PathEltOrInverse (PathElt
               (PathPrimary (IRI ''http://jena.apache.org/text#query'')))]])),
             ObjectListPath [ObjectPath (GraphNodePath_Triples (TriplesNodePath (CollectionPath
               (map (\<lambda>predicate. GraphNodePath_Term (VarOrTerm_Term (GraphTerm_IRI (IRI predicate)))) preds
                @ [GraphNodePath_Term (VarOrTerm_Term (GraphTerm_Literal (RDFLiteral search_term)))]))))]))))
       None"

text \<open>The expression bound to \<open>?hashID\<close> in the inner SELECT.\<close>
definition hash_expression :: PrimaryExpression where
  "hash_expression =
     create_with_one_expr ''URI''
       (create_with_n_expr ''CONCAT''
          [Content_Literal (RDFLiteral ''urn:hash:''),
           create_with_one_expr ''SHA256''
             (create_with_n_expr ''CONCAT''
                (map (\<lambda>e. create_with_one_expr ''STR'' (Content_Var e))
                     [Var ''focus_node'', Var ''pred'', Var ''match'', Var ''weight'']))])"

text \<open>The constructor. \<open>from_tssp_list\<close> is the class method \<open>TriplesBlock.from_tssp_list\<close> of the
  grammar library, which chains a list of path patterns into blocks, and \<open>prez\<close> is the
  namespace \<open>PREZ\<close> of \<open>prez.reference_data.prez_ns\<close>: both are parameters. Iterating over
  \<open>shacl_tssp_preds\<close> when it is \<open>None\<close>, its default, raises TypeError.\<close>
definition SearchQueryFusekiFTS ::
  "(TriplesSameSubjectPath list \<Rightarrow> TriplesBlock option)
    \<Rightarrow> string \<Rightarrow> string \<Rightarrow> int \<Rightarrow> int \<Rightarrow> string list option
    \<Rightarrow> (TriplesSameSubjectPath list \<times> string list) list option
    \<Rightarrow> TriplesSameSubject list option \<Rightarrow> py_error + ConstructQuery" where
  "SearchQueryFusekiFTS from_tssp_list prez search_term limit0 offset0 non_shacl_predicates shacl_tssp_preds tss_list0 =
     (let limit1 = limit0 + 1;
          term1 = py_join ''+'' (py_split_space search_term);
          sr_uri = Var ''focus_node'';
          weight = Var ''weight'';
          match = Var ''match'';
          pred = Var ''pred'';
          hashid = Var ''hashID'';
          ct_map = [(IRI (prez @ ''searchResultWeight''), Term_Var weight),
                    (IRI (prez @ ''searchResultPredicate''), Term_Var pred),
                    (IRI (prez @ ''searchResultMatch''), Term_Var match),
                    (IRI (prez @ ''searchResultURI''), Term_Var sr_uri),
                    (IRI ''http://www.w3.org/1999/02/22-rdf-syntax-ns#type'',
                     Term_IRI (IRI (prez @ ''SearchResult'')))];
          construct_tss_list =
            map (\<lambda>(p, v). from_spo (Term_Var hashid) (Term_IRI p) v) ct_map
            @ (if truthy_list tss_list0 then the tss_list0 else []);
          construct_template0 = ConstructTemplate (from_tss_list construct_tss_list);
          ggp_list0 =
            (if truthy_list non_shacl_predicates
             then [Content_Sub (GroupGraphPatternSub
                     (Some (generate_fts_triples_block term1 (the non_shacl_predicates) sr_uri)) [])]
             else [])
      in case shacl_tssp_preds of
           None \<Rightarrow> Inl TypeError
         | Some pairs \<Rightarrow>
     let ggp_list =
            ggp_list0
            @ map (\<lambda>(tssp_list, preds).
                     let path_preds_tb = generate_fts_triples_block term1 preds (Var ''fts_search_node'')
                     in Content_Sub (GroupGraphPatternSub
                          (Some (TriplesBlock (triples path_preds_tb) (from_tssp_list tssp_list))) []))
                  pairs;
          gpnt = GraphPatternNotTriples (GroupOrUnionGraphPattern ggp_list)
      in Inr \<lparr> construct_template = construct_template0,
               where_clause = WhereClause (Content_SubSelect (SubSelect
                 (SelectClause [Select_Var sr_uri, Select_Var pred, Select_Var match, Select_Var weight,
                                Select_As (from_primary_expression hash_expression) hashid])
                 (WhereClause (Content_Sub (GroupGraphPatternSub None [gpnt])))
                 (SolutionModifier (Some (OrderClause [OrderCondition weight ''DESC'']))
                    (Some (LimitOffsetClauses (LimitClause limit1) (OffsetClause offset0)))))),
               solution_modifier = SolutionModifier None None \<rparr>)"

text \<open>The properties of the built query. Each follows its attribute path, and fails where the
  path does not exist.\<close>
definition inner_subselect :: "ConstructQuery \<Rightarrow> py_error + SubSelect" where
  "inner_subselect q =
     (case where_clause q of
        WhereClause (Content_SubSelect s) \<Rightarrow> Inr s
      | WhereClause (Content_Sub _) \<Rightarrow> Inl AttributeError)"

definition limit :: "ConstructQuery \<Rightarrow> py_error + int" where
  "limit q =
     (case inner_subselect q of
        Inl e \<Rightarrow> Inl e
      | Inr (SubSelect _ _ sm) \<Rightarrow>
          (case limit_offset sm of
             None \<Rightarrow> Inl AttributeError
           | Some lo \<Rightarrow> (case limit_clause lo of LimitClause n \<Rightarrow> Inr n)))"

definition offset :: "ConstructQuery \<Rightarrow> py_error + int" where
  "offset q =
     (case inner_subselect q of
        Inl e \<Rightarrow> Inl e
      | Inr (SubSelect _ _ sm) \<Rightarrow>
          (case limit_offset sm of
             None \<Rightarrow> Inl AttributeError
           | Some lo \<Rightarrow> (case offset_clause lo of OffsetClause n \<Rightarrow> Inr n)))"

definition order_by :: "ConstructQuery \<Rightarrow> Var" where
  "order_by q = Var ''weight''"

definition order_by_direction :: "ConstructQuery \<Rightarrow> string" where
  "order_by_direction q = ''DESC''"

definition inner_select_vars :: "ConstructQuery \<Rightarrow> py_error + SelectItem list" where
  "inner_select_vars q =
     (case inner_subselect q of
        Inl e \<Rightarrow> Inl e
      | Inr (SubSelect sc _ _) \<Rightarrow> Inr (variables_or_all sc))"

text \<open>The order conditions of the inner SELECT, read along the path that \<open>limit\<close> follows.\<close>
definition inner_order_conditions :: "ConstructQuery \<Rightarrow> py_error + OrderCondition list" where
  "inner_order_conditions q =
     (case inner_subselect q of
        Inl e \<Rightarrow> Inl e
      | Inr (SubSelect _ _ sm) \<Rightarrow>
          (case order_by_clause sm of
             None \<Rightarrow> Inl AttributeError
           | Some (OrderClause conds) \<Rightarrow> Inr conds))"

text \<open>The search phrases that the text-index patterns of the inner SELECT carry: the literal
  that ends each object list, one per pattern group.\<close>
fun block_phrase :: "TriplesBlock \<Rightarrow> string option" where
  "block_phrase (TriplesBlock (TriplesSameSubjectPath (_, PropertyListPath (PropertyListPathNotEmpty
      (_, ObjectListPath [ObjectPath (GraphNodePath_Triples (TriplesNodePath (CollectionPath nodes)))])))) _) =
     (case rev nodes of
        GraphNodePath_Term (VarOrTerm_Term (GraphTerm_Literal (RDFLiteral s))) # _ \<Rightarrow> Some s
      | _ \<Rightarrow> None)"
| "block_phrase _ = None"

fun group_phrase :: "GroupGraphPattern \<Rightarrow> string option" where
  "group_phrase (Content_Sub (GroupGraphPatternSub (Some tb) _)) = block_phrase tb"
| "group_phrase _ = None"

definition search_phrases :: "ConstructQuery \<Rightarrow> string option list" where
  "search_phrases q =
     (case inner_subselect q of
        Inr (SubSelect _ (WhereClause (Content_Sub (GroupGraphPatternSub _
               [GraphPatternNotTriples (GroupOrUnionGraphPattern groups)]))) _) \<Rightarrow> map group_phrase groups
      | _ \<Rightarrow> [])"

text \<open>An expression in the notation of the docstring of the builder.\<close>
fun expression_text :: "PrimaryExpression \<Rightarrow> string" where
  "expression_text (Content_Var (Var v)) = ''?'' @ v"
| \<open>expression_text (Content_Literal (RDFLiteral s)) = ''"'' @ s @ ''"''\<close>
| "expression_text (Content_BuiltInCall f args) =
     f @ ''('' @ py_join '', '' (map expression_text args) @ '')''"

text \<open>The value of an expression in a solution: \<open>binding\<close> gives the text of the value bound to
  each variable, \<open>sha256\<close> is the digest function; \<open>STR\<close>, \<open>URI\<close> and \<open>CONCAT\<close> act on texts.\<close>
fun expression_value :: "(string \<Rightarrow> string) \<Rightarrow> (string \<Rightarrow> string) \<Rightarrow> PrimaryExpression \<Rightarrow> string" where
  "expression_value sha256 binding (Content_Var (Var v)) = binding v"
| "expression_value sha256 binding (Content_Literal (RDFLiteral s)) = s"
| "expression_value sha256 binding (Content_BuiltInCall f args) =
     (let vals = map (expression_value sha256 binding) args in
      if f = ''CONCAT'' then concat vals
      else if f = ''SHA256'' then sha256 (concat vals)
      else concat vals)"

section \<open>Blank-node fragments: counts, nesting and variables\<close>

lemma digit_char_in: "n < 10 \<Longrightarrow> digit_char n \<in> set ''0123456789''"
  unfolding digit_char_def by (rule nth_mem) simp

lemma str_nat_digits: "set (str_nat n) \<subseteq> set ''0123456789''"
proof (induction n rule: str_nat.induct)
  case (1 n)
  show ?case
  proof (cases "n < 10")
    case True
    then show ?thesis using digit_char_in[of n] by (subst str_nat.simps) simp
  next
    case False
    have "digit_char (n mod 10) \<in> set ''0123456789''" by (rule digit_char_in) simp
    with False 1 show ?thesis by (subst str_nat.simps) simp
  qed
qed

lemma str_nat_not_Nil: "str_nat n \<noteq> []"
proof (cases "n < 10")
  case True
  have "str_nat n = [digit_char n]" using True by (subst str_nat.simps) simp
  then show ?thesis by simp
next
  case False
  have "str_nat n = str_nat (n div 10) @ [digit_char (n mod 10)]"
    using False by (subst str_nat.simps) simp
  then show ?thesis by simp
qed

lemma py_str_int_nonneg: "0 \<le> i \<Longrightarrow> py_str_int i = str_nat (nat i)"
  by (simp add: py_str_int_def)

lemma str_nat_var_char: "c \<in> set (str_nat n) \<Longrightarrow> var_char c"
proof -
  have "set ''0123456789'' \<subseteq> {c. var_char c}" by (simp add: var_char_def)
  then show "c \<in> set (str_nat n) \<Longrightarrow> var_char c" using str_nat_digits[of n] by blast
qed

lemma str_nat_no_char:
  "c \<notin> set ''0123456789'' \<Longrightarrow> c \<notin> set (str_nat n)"
  using str_nat_digits[of n] by blast

lemma count_sub_skip:
  "a \<notin> set xs \<Longrightarrow> count_sub (a # q) (xs @ ys) = count_sub (a # q) ys"
  by (induction xs) auto

lemma sparql_vars_skip:
  "CHR ''?'' \<notin> set xs \<Longrightarrow> sparql_vars (xs @ ys) = sparql_vars ys"
  by (induction xs) auto

lemma takeWhile_var_stop:
  "\<forall>c\<in>set ds. var_char c \<Longrightarrow> \<not> var_char c \<Longrightarrow> takeWhile var_char (ds @ c # ys) = ds"
  by (induction ds) auto

lemma py_repeat_tab: "py_repeat [tab] n = replicate (nat n) tab"
  by (simp add: py_repeat_def)

lemma py_join_Cons: "py_join sep (x # xs) = (if xs = [] then x else x @ sep @ py_join sep xs)"
  by (cases xs) simp_all

lemma generate_bnode_construct_lines:
  "generate_bnode_construct d = nl # py_join [nl] (map bnode_triple_line [0..<nat d])"
  by (simp add: generate_bnode_construct_def py_range_def bnode_triple_line_def[abs_def]
        py_str_int_nonneg comp_def nat_add_distrib)

lemma generate_bnode_select_blocks:
  "generate_bnode_select d =
     py_join [nl] (map bnode_open_block [0..<nat d])
     @ concat (map bnode_close_block (rev [0..<nat d]))"
  by (simp add: generate_bnode_select_def py_range_def bnode_open_block_def[abs_def] bnode_close_block_def[abs_def]
        py_str_int_nonneg py_repeat_tab comp_def nat_add_distrib rev_map Let_def)

lemma count_sub_join:
  assumes seg: "\<And>k ys. count_sub p (f k @ ys) = Suc (count_sub p ys)"
    and sep: "\<And>ys. count_sub p (sep @ ys) = count_sub p ys"
  shows "count_sub p (py_join sep (map f ks) @ ys) = length ks + count_sub p ys"
proof (induction ks)
  case Nil
  show ?case by simp
next
  case (Cons k ks)
  show ?case
  proof (cases "ks = []")
    case True
    then show ?thesis by (simp add: seg)
  next
    case False
    then show ?thesis using Cons by (simp add: py_join_Cons seg sep)
  qed
qed

lemma count_sub_none_join:
  assumes seg: "\<And>k ys. count_sub p (f k @ ys) = count_sub p ys"
  shows "count_sub p (concat (map f ks) @ ys) = count_sub p ys"
  by (induction ks) (simp_all add: seg)

lemma open_block_OPTIONAL:
  "count_sub ''OPTIONAL {'' (bnode_open_block k @ ys) = Suc (count_sub ''OPTIONAL {'' ys)"
  by (simp add: bnode_open_block_def count_sub_skip str_nat_no_char)

lemma open_block_ISBLANK:
  "count_sub ''FILTER(ISBLANK(?o'' (bnode_open_block k @ ys) = Suc (count_sub ''FILTER(ISBLANK(?o'' ys)"
  by (simp add: bnode_open_block_def count_sub_skip str_nat_no_char)

lemma open_block_pred:
  "count_sub '' ?p'' (bnode_open_block k @ ys) = Suc (count_sub '' ?p'' ys)"
  by (simp add: bnode_open_block_def count_sub_skip str_nat_no_char)

lemma close_block_OPTIONAL:
  "count_sub ''OPTIONAL {'' (bnode_close_block k @ ys) = count_sub ''OPTIONAL {'' ys"
  by (simp add: bnode_close_block_def count_sub_skip)

lemma close_block_ISBLANK:
  "count_sub ''FILTER(ISBLANK(?o'' (bnode_close_block k @ ys) = count_sub ''FILTER(ISBLANK(?o'' ys"
  by (simp add: bnode_close_block_def count_sub_skip)

lemma close_block_pred:
  "count_sub '' ?p'' (bnode_close_block k @ ys) = count_sub '' ?p'' ys"
  by (simp add: bnode_close_block_def count_sub_skip)

lemma triple_line_pred:
  "count_sub '' ?p'' (bnode_triple_line k @ ys) = Suc (count_sub '' ?p'' ys)"
  by (simp add: bnode_triple_line_def count_sub_skip str_nat_no_char)

lemma triple_line_dot:
  "count_sub '' .'' (bnode_triple_line k @ ys) = Suc (count_sub '' .'' ys)"
  by (simp add: bnode_triple_line_def count_sub_skip str_nat_no_char)

lemma select_count_OPTIONAL: "count_sub ''OPTIONAL {'' (generate_bnode_select d) = nat d"
proof -
  have "count_sub ''OPTIONAL {'' (py_join [nl] (map bnode_open_block [0..<nat d])
          @ concat (map bnode_close_block (rev [0..<nat d])) @ []) = nat d"
    by (subst count_sub_join[where p = "''OPTIONAL {''", OF open_block_OPTIONAL],
        simp, subst count_sub_none_join[OF close_block_OPTIONAL], simp)
  then show ?thesis by (simp add: generate_bnode_select_blocks)
qed

lemma select_count_ISBLANK: "count_sub ''FILTER(ISBLANK(?o'' (generate_bnode_select d) = nat d"
proof -
  have "count_sub ''FILTER(ISBLANK(?o'' (py_join [nl] (map bnode_open_block [0..<nat d])
          @ concat (map bnode_close_block (rev [0..<nat d])) @ []) = nat d"
    by (subst count_sub_join[where p = "''FILTER(ISBLANK(?o''", OF open_block_ISBLANK],
        simp, subst count_sub_none_join[OF close_block_ISBLANK], simp)
  then show ?thesis by (simp add: generate_bnode_select_blocks)
qed

lemma construct_count_pred: "count_sub '' ?p'' (generate_bnode_construct d) = nat d"
proof -
  have "count_sub '' ?p'' (py_join [nl] (map bnode_triple_line [0..<nat d]) @ []) = nat d"
    by (subst count_sub_join[where p = "'' ?p''", OF triple_line_pred]) simp_all
  then show ?thesis by (simp add: generate_bnode_construct_lines)
qed

lemma construct_count_dot: "count_sub '' .'' (generate_bnode_construct d) = nat d"
proof -
  have "count_sub '' .'' (py_join [nl] (map bnode_triple_line [0..<nat d]) @ []) = nat d"
    by (subst count_sub_join[where p = "'' .''", OF triple_line_dot]) simp_all
  then show ?thesis by (simp add: generate_bnode_construct_lines)
qed

lemma nested_optional_blocks:
  "py_join [nl] (map bnode_open_block [i..<i + d]) @ concat (map bnode_close_block (rev [i..<i + d]))
     = nested_optional (Suc i) d"
proof (induction d arbitrary: i)
  case 0
  show ?case by simp
next
  case (Suc d)
  have split: "[i..<i + Suc d] = i # [Suc i..<Suc i + d]"
    by (simp add: upt_conv_Cons)
  show ?case
  proof (cases "d = 0")
    case True
    then show ?thesis
      by (simp add: bnode_open_block_def bnode_close_block_def)
  next
    case False
    then have ne: "map bnode_open_block [Suc i..<Suc i + d] \<noteq> []" by simp
    have "py_join [nl] (map bnode_open_block [i..<i + Suc d])
            @ concat (map bnode_close_block (rev [i..<i + Suc d]))
          = bnode_open_block i @ [nl]
            @ (py_join [nl] (map bnode_open_block [Suc i..<Suc i + d])
               @ concat (map bnode_close_block (rev [Suc i..<Suc i + d])))
            @ bnode_close_block i"
      unfolding split using ne by (simp add: py_join_Cons)
    also have "\<dots> = bnode_open_block i @ [nl] @ nested_optional (Suc (Suc i)) d @ bnode_close_block i"
      by (simp only: Suc.IH)
    also have "\<dots> = nested_optional (Suc i) (Suc d)"
      using False by (simp add: bnode_open_block_def bnode_close_block_def)
    finally show ?thesis .
  qed
qed

lemma select_nested: "generate_bnode_select d = nested_optional 1 (nat d)"
  using nested_optional_blocks[of 0 "nat d"] by (simp add: generate_bnode_select_blocks)

lemma var_char_o: "var_char (CHR ''o'')" by (simp add: var_char_def)
lemma var_char_p: "var_char (CHR ''p'')" by (simp add: var_char_def)
lemma not_var_char_space: "\<not> var_char (CHR '' '')" by (simp add: var_char_def)
lemma not_var_char_paren: "\<not> var_char (CHR '')'')" by (simp add: var_char_def)

lemma sparql_var_read:
  assumes "var_char a" "a \<noteq> CHR ''?''" "\<not> var_char c"
  shows "sparql_vars (CHR ''?'' # a # str_nat n @ c # ys) = (a # str_nat n) # sparql_vars (c # ys)"
proof -
  have "takeWhile var_char (a # str_nat n @ c # ys) = a # str_nat n"
    using assms takeWhile_var_stop[of "str_nat n" c ys] str_nat_var_char by simp
  moreover have "sparql_vars (a # str_nat n @ c # ys) = sparql_vars (c # ys)"
    using assms(2) sparql_vars_skip[of "str_nat n" "c # ys"] str_nat_no_char[of "CHR ''?''" n]
    by simp
  ultimately show ?thesis by simp
qed

lemma sparql_vars_other:
  "c \<noteq> CHR ''?'' \<Longrightarrow> sparql_vars (c # cs) = sparql_vars cs"
  by simp

lemma triple_line_vars:
  "sparql_vars (bnode_triple_line k @ ys) =
     [''o'' @ str_nat (k + 1), ''p'' @ str_nat (k + 2), ''o'' @ str_nat (k + 2)] @ sparql_vars ys"
  by (simp add: bnode_triple_line_def sparql_var_read sparql_vars_other
        var_char_o var_char_p not_var_char_space del: sparql_vars.simps(2))

lemma open_block_vars:
  "sparql_vars (bnode_open_block k @ ys) =
     [''o'' @ str_nat (k + 1), ''o'' @ str_nat (k + 1), ''p'' @ str_nat (k + 2), ''o'' @ str_nat (k + 2)]
     @ sparql_vars ys"
  by (simp add: bnode_open_block_def sparql_var_read sparql_vars_skip sparql_vars_other
        var_char_o var_char_p not_var_char_space not_var_char_paren del: sparql_vars.simps(2))

lemma close_block_vars: "sparql_vars (bnode_close_block k @ ys) = sparql_vars ys"
  by (simp add: bnode_close_block_def sparql_vars_skip)

lemma sparql_vars_join:
  assumes seg: "\<And>k ys. sparql_vars (f k @ ys) = V k @ sparql_vars ys"
    and sep: "\<And>ys. sparql_vars (sep @ ys) = sparql_vars ys"
  shows "sparql_vars (py_join sep (map f ks) @ ys) = concat (map V ks) @ sparql_vars ys"
proof (induction ks)
  case Nil
  show ?case by simp
next
  case (Cons k ks)
  show ?case
  proof (cases "ks = []")
    case True
    then show ?thesis by (simp add: seg)
  next
    case False
    then show ?thesis using Cons by (simp add: py_join_Cons seg sep)
  qed
qed

lemma sparql_vars_concat_none:
  assumes seg: "\<And>k ys. sparql_vars (f k @ ys) = sparql_vars ys"
  shows "sparql_vars (concat (map f ks) @ ys) = sparql_vars ys"
  by (induction ks) (simp_all add: seg)

lemma construct_vars:
  "sparql_vars (generate_bnode_construct d) =
     concat (map (\<lambda>k. [''o'' @ str_nat (k + 1), ''p'' @ str_nat (k + 2), ''o'' @ str_nat (k + 2)])
                 [0..<nat d])"
proof -
  have "sparql_vars (py_join [nl] (map bnode_triple_line [0..<nat d]) @ []) =
     concat (map (\<lambda>k. [''o'' @ str_nat (k + 1), ''p'' @ str_nat (k + 2), ''o'' @ str_nat (k + 2)])
                 [0..<nat d]) @ sparql_vars []"
    by (rule sparql_vars_join[OF triple_line_vars]) simp
  then show ?thesis by (simp add: generate_bnode_construct_lines)
qed

lemma select_vars:
  "sparql_vars (generate_bnode_select d) =
     concat (map (\<lambda>k. [''o'' @ str_nat (k + 1), ''o'' @ str_nat (k + 1),
                          ''p'' @ str_nat (k + 2), ''o'' @ str_nat (k + 2)])
                 [0..<nat d])"
proof -
  have "sparql_vars (py_join [nl] (map bnode_open_block [0..<nat d])
          @ (concat (map bnode_close_block (rev [0..<nat d])) @ [])) =
     concat (map (\<lambda>k. [''o'' @ str_nat (k + 1), ''o'' @ str_nat (k + 1),
                          ''p'' @ str_nat (k + 2), ''o'' @ str_nat (k + 2)])
                 [0..<nat d]) @ sparql_vars (concat (map bnode_close_block (rev [0..<nat d])) @ [])"
    by (rule sparql_vars_join[OF open_block_vars]) simp
  also have "sparql_vars (concat (map bnode_close_block (rev [0..<nat d])) @ []) = sparql_vars []"
    by (rule sparql_vars_concat_none[OF close_block_vars])
  finally show ?thesis by (simp add: generate_bnode_select_blocks)
qed

lemma bnode_vars_agree:
  "set (sparql_vars (generate_bnode_construct d)) = set (sparql_vars (generate_bnode_select d))"
  unfolding construct_vars select_vars by auto

text \<open>
  Claim C3. For every blank-node depth \<open>d \<ge> 0\<close>, the WHERE fragment of
  \<open>generate_bnode_select\<close> holds exactly \<open>d\<close> \<open>OPTIONAL\<close> blocks, each with its
  \<open>FILTER(ISBLANK(?o\<^sub>i))\<close> guard on the variable it traverses from, nested one inside the
  other; the CONSTRUCT fragment of \<open>generate_bnode_construct\<close> holds exactly \<open>d\<close> triples
  \<open>?o\<^sub>i ?p\<^sub>i\<^sub>+\<^sub>1 ?o\<^sub>i\<^sub>+\<^sub>1\<close>; at depth 0 both fragments hold none; and the two fragments
  mention the same variables.
\<close>
theorem bnode_fragments_match_depth:
  "0 \<le> d \<Longrightarrow>
     int (count_sub ''OPTIONAL {'' (generate_bnode_select d)) = d
   \<and> int (count_sub ''FILTER(ISBLANK(?o'' (generate_bnode_select d)) = d
   \<and> generate_bnode_select d = nested_optional 1 (nat d)
   \<and> int (count_sub '' ?p'' (generate_bnode_construct d)) = d
   \<and> int (count_sub '' .'' (generate_bnode_construct d)) = d
   \<and> generate_bnode_construct d = nl # py_join [nl] (map bnode_triple_line [0..<nat d])
   \<and> set (sparql_vars (generate_bnode_construct d)) = set (sparql_vars (generate_bnode_select d))
   \<and> generate_bnode_construct 0 = [nl] \<and> generate_bnode_select 0 = []"
proof -
  assume d: "0 \<le> d"
  have zero_c: "generate_bnode_construct 0 = [nl]"
    by (simp add: generate_bnode_construct_lines)
  have zero_s: "generate_bnode_select 0 = []"
    by (simp add: generate_bnode_select_blocks)
  from d show ?thesis
    using select_count_OPTIONAL[of d] select_count_ISBLANK[of d] select_nested[of d]
      construct_count_pred[of d] construct_count_dot[of d] generate_bnode_construct_lines[of d]
      bnode_vars_agree[of d] zero_c zero_s
    by simp
qed

theorem bnode_fragments_match_depth_witness:
  "(0::int) \<le> 2
   \<and> int (count_sub ''OPTIONAL {'' (generate_bnode_select 2)) = 2
   \<and> int (count_sub ''FILTER(ISBLANK(?o'' (generate_bnode_select 2)) = 2
   \<and> generate_bnode_select 2 = nested_optional 1 (nat 2)
   \<and> int (count_sub '' ?p'' (generate_bnode_construct 2)) = 2
   \<and> int (count_sub '' .'' (generate_bnode_construct 2)) = 2
   \<and> generate_bnode_construct 2 = nl # py_join [nl] (map bnode_triple_line [0..<nat 2])
   \<and> set (sparql_vars (generate_bnode_construct 2)) = set (sparql_vars (generate_bnode_select 2))
   \<and> generate_bnode_construct 0 = [nl] \<and> generate_bnode_select 0 = []"
proof -
  have h: "(0::int) \<le> 2" by simp
  show ?thesis by (rule conjI[OF h bnode_fragments_match_depth[OF h]])
qed

section \<open>Sequence paths: triples in chain order\<close>

lemma py_join_Cons_concat: "py_join sep (x # xs) = x @ concat (map (\<lambda>y. sep @ y) xs)"
  by (induction xs arbitrary: x) (simp_all add: py_join_Cons)

lemma digit_char_inj: "a < 10 \<Longrightarrow> b < 10 \<Longrightarrow> digit_char a = digit_char b \<Longrightarrow> a = b"
  unfolding digit_char_def
  by (subst (asm) nth_eq_iff_index_eq) simp_all

lemma str_nat_small: "n < 10 \<Longrightarrow> str_nat n = [digit_char n]"
  by (subst str_nat.simps) simp

lemma str_nat_big: "\<not> n < 10 \<Longrightarrow> str_nat n = str_nat (n div 10) @ [digit_char (n mod 10)]"
  by (subst str_nat.simps) simp

lemma str_nat_inj: "str_nat m = str_nat n \<Longrightarrow> m = n"
proof (induction m arbitrary: n rule: str_nat.induct)
  case (1 m)
  show ?case
  proof (cases "m < 10")
    case True
    show ?thesis
    proof (cases "n < 10")
      case nsmall: True
      from 1(2) True nsmall show ?thesis
        by (simp add: str_nat_small digit_char_inj)
    next
      case False
      from 1(2) True False str_nat_not_Nil[of "n div 10"] show ?thesis
        by (simp add: str_nat_small str_nat_big)
    qed
  next
    case mbig: False
    show ?thesis
    proof (cases "n < 10")
      case True
      from 1(2) mbig True str_nat_not_Nil[of "m div 10"] show ?thesis
        by (simp add: str_nat_small str_nat_big)
    next
      case False
      from 1(2) mbig False have eq: "str_nat (m div 10) = str_nat (n div 10)"
        and d: "digit_char (m mod 10) = digit_char (n mod 10)"
        by (simp_all add: str_nat_big)
      from 1(1)[OF mbig eq] have "m div 10 = n div 10" .
      moreover from d have "m mod 10 = n mod 10" by (intro digit_char_inj) simp_all
      ultimately show ?thesis by (metis div_mult_mod_eq)
    qed
  qed
qed

lemma seq_var_inj: "inj seq_var"
  by (rule injI) (simp add: seq_var_def str_nat_inj)

lemma chain_triples_length: "length (chain_triples s i ps) = length ps"
  by (induction ps arbitrary: s i) simp_all

lemma chain_triples_predicates:
  "map (fst \<circ> snd) (chain_triples s i ps) = map (\<lambda>p. ''<'' @ p @ ''>'') ps"
  by (induction ps arbitrary: s i) simp_all

lemma chain_triples_objects:
  "map (snd \<circ> snd) (chain_triples s i ps) = map seq_var [i..<i + length ps]"
  by (induction ps arbitrary: s i) (simp_all add: upt_conv_Cons del: upt_Suc)

lemma chain_triples_subjects:
  "ps \<noteq> [] \<Longrightarrow> map fst (chain_triples s i ps) = s # map seq_var [i..<i + length ps - 1]"
proof (induction ps arbitrary: s i)
  case Nil
  then show ?case by simp
next
  case (Cons p ps)
  show ?case
  proof (cases "ps = []")
    case True
    then show ?thesis by simp
  next
    case False
    from Cons.IH[OF False, of "seq_var i" "Suc i"] False show ?thesis
      by (cases ps) (simp_all add: upt_conv_Cons del: upt_Suc)
  qed
qed

lemma seq_vars_distinct: "distinct (map seq_var [i..<j])"
  by (simp add: distinct_map inj_on_subset[OF seq_var_inj subset_UNIV])

lemma str_nat_1: "str_nat (Suc 0) = ''1''"
  by (simp add: str_nat.simps digit_char_def)

lemma render_triple_text:
  "render_triple (s, p, ob) = [tab] @ s @ '' '' @ p @ '' '' @ ob @ '' .''"
  by (simp add: render_triple_def)

lemma chain_tail_text:
  "concat (map (\<lambda>j. [nl, tab] @ ''?seq_o'' @ str_nat (k + j) @ '' <'' @ ps ! j @ ''> ?seq_o''
                       @ str_nat (Suc (k + j)) @ '' .'') [0..<length ps])
   = concat (map (\<lambda>t. nl # render_triple t) (chain_triples (seq_var k) (Suc k) ps))"
proof (induction ps arbitrary: k)
  case Nil
  show ?case by simp
next
  case (Cons p ps)
  have "concat (map (\<lambda>j. [nl, tab] @ ''?seq_o'' @ str_nat (k + j) @ '' <'' @ (p # ps) ! j
                       @ ''> ?seq_o'' @ str_nat (Suc (k + j)) @ '' .'') [0..<length (p # ps)])
        = ([nl, tab] @ ''?seq_o'' @ str_nat k @ '' <'' @ p @ ''> ?seq_o'' @ str_nat (Suc k) @ '' .'')
          @ concat (map (\<lambda>j. [nl, tab] @ ''?seq_o'' @ str_nat (Suc k + j) @ '' <'' @ ps ! j
                       @ ''> ?seq_o'' @ str_nat (Suc (Suc k + j)) @ '' .'') [0..<length ps])"
    by (simp add: map_upt_Suc del: upt_Suc)
  also have "\<dots> = ([nl, tab] @ ''?seq_o'' @ str_nat k @ '' <'' @ p @ ''> ?seq_o'' @ str_nat (Suc k) @ '' .'')
          @ concat (map (\<lambda>t. nl # render_triple t) (chain_triples (seq_var (Suc k)) (Suc (Suc k)) ps))"
    by (simp only: Cons.IH)
  also have "\<dots> = concat (map (\<lambda>t. nl # render_triple t) (chain_triples (seq_var k) (Suc k) (p # ps)))"
    by (simp add: render_triple_text seq_var_def)
  finally show ?case .
qed

lemma sequence_chain_render:
  assumes "pl \<noteq> []"
  shows "sequence_chain u pl =
           Inr (render_chain (chain_triples (''<'' @ py_str_opt u @ ''>'') 1 (map node_str pl)))"
proof -
  from assms obtain p0 ps where pl: "pl = p0 # ps" by (cases pl) auto
  have idx: "map (\<lambda>i. [nl, tab] @ ''?seq_o'' @ py_str_int (int i) @ '' <'' @ node_str (pl ! i)
                       @ ''> ?seq_o'' @ py_str_int (int i + 1) @ '' .'') [1..<length pl]
        = map (\<lambda>j. [nl, tab] @ ''?seq_o'' @ str_nat (1 + j) @ '' <'' @ map node_str ps ! j
                       @ ''> ?seq_o'' @ str_nat (Suc (1 + j)) @ '' .'') [0..<length (map node_str ps)]"
    unfolding pl
    by (simp add: map_Suc_upt[symmetric] py_str_int_nonneg nat_add_distrib del: upt_Suc)
  show ?thesis
    unfolding sequence_chain_def idx chain_tail_text
    by (simp add: pl render_chain_def py_join_Cons_concat render_triple_text seq_var_def str_nat_1 comp_def)
qed

lemma sequence_loop_chains:
  "[] \<notin> set chs \<Longrightarrow>
     sequence_loop u acc chs =
       Inr (acc @ concat (map (\<lambda>c. render_chain (chain_triples (''<'' @ py_str_opt u @ ''>'') 1 (map node_str c))) chs))"
  by (induction chs arbitrary: acc) (auto simp: sequence_chain_render)

lemma generate_sequence_construct_chains:
  "[] \<notin> set chs \<Longrightarrow>
     generate_sequence_construct u (Some chs) =
       Inr (concat (map (\<lambda>c. render_chain (chain_triples (''<'' @ py_str_opt u @ ''>'') 1 (map node_str c))) chs))"
  by (cases "chs = []") (simp_all add: generate_sequence_construct_def sequence_loop_chains)

lemma split_at_first:
  "c \<notin> set p \<Longrightarrow> c \<notin> set q \<Longrightarrow> p @ c # x = q @ c # y \<Longrightarrow> p = q \<and> x = y"
proof (induction p arbitrary: q)
  case Nil
  then show ?case by (cases q) auto
next
  case (Cons a p)
  then show ?case by (cases q) auto
qed

lemma render_tail_inj:
  assumes "length ps = length qs"
    and "\<forall>p\<in>set ps. CHR ''>'' \<notin> set p" and "\<forall>q\<in>set qs. CHR ''>'' \<notin> set q"
    and "concat (map (\<lambda>t. nl # render_triple t) (chain_triples s i ps))
         = concat (map (\<lambda>t. nl # render_triple t) (chain_triples s i qs))"
  shows "ps = qs"
  using assms
proof (induction ps qs arbitrary: s i rule: list_induct2)
  case Nil
  show ?case by simp
next
  case (Cons p ps q qs)
  from Cons.prems(3) have eq:
    "p @ CHR ''>'' # ('' '' @ seq_var i @ '' .''
        @ concat (map (\<lambda>t. nl # render_triple t) (chain_triples (seq_var i) (Suc i) ps)))
     = q @ CHR ''>'' # ('' '' @ seq_var i @ '' .''
        @ concat (map (\<lambda>t. nl # render_triple t) (chain_triples (seq_var i) (Suc i) qs)))"
    by (simp add: render_triple_text)
  have np: "CHR ''>'' \<notin> set p" and nq: "CHR ''>'' \<notin> set q" using Cons.prems by simp_all
  note both = split_at_first[OF np nq eq]
  from both have pq: "p = q" by (rule conjunct1)
  from both have rest:
    "concat (map (\<lambda>t. nl # render_triple t) (chain_triples (seq_var i) (Suc i) ps))
     = concat (map (\<lambda>t. nl # render_triple t) (chain_triples (seq_var i) (Suc i) qs))"
    by simp
  from Cons.IH[OF _ _ rest] Cons.prems pq show ?case by simp
qed

lemma render_chain_inj:
  assumes "length ps = length qs" "ps \<noteq> []"
    and "\<forall>p\<in>set ps. CHR ''>'' \<notin> set p" and "\<forall>q\<in>set qs. CHR ''>'' \<notin> set q"
    and "render_chain (chain_triples s i ps) = render_chain (chain_triples s i qs)"
  shows "ps = qs"
proof -
  from assms(1,2) obtain p ps' q qs' where ps: "ps = p # ps'" and qs: "qs = q # qs'"
    and len: "length ps' = length qs'"
    by (cases ps; cases qs) auto
  from assms(5) have eq:
    "p @ CHR ''>'' # ('' '' @ seq_var i @ '' .''
        @ concat (map (\<lambda>t. nl # render_triple t) (chain_triples (seq_var i) (Suc i) ps')))
     = q @ CHR ''>'' # ('' '' @ seq_var i @ '' .''
        @ concat (map (\<lambda>t. nl # render_triple t) (chain_triples (seq_var i) (Suc i) qs')))"
    by (simp add: ps qs render_chain_def py_join_Cons_concat render_triple_text comp_def)
  have np: "CHR ''>'' \<notin> set p" and nq: "CHR ''>'' \<notin> set q" using assms(3,4) ps qs by simp_all
  note both = split_at_first[OF np nq eq]
  from both have pq: "p = q" by (rule conjunct1)
  from both have rest:
    "concat (map (\<lambda>t. nl # render_triple t) (chain_triples (seq_var i) (Suc i) ps'))
     = concat (map (\<lambda>t. nl # render_triple t) (chain_triples (seq_var i) (Suc i) qs'))"
    by simp
  have "ps' = qs'"
    by (rule render_tail_inj[OF len _ _ rest]) (use assms(3,4) ps qs in simp_all)
  with pq ps qs show ?thesis by simp
qed

lemma reversed_chain_differs:
  assumes "pl \<noteq> []" "\<forall>p\<in>set pl. CHR ''>'' \<notin> set (node_str p)"
    and "rev (map node_str pl) \<noteq> map node_str pl"
  shows "generate_sequence_construct u (Some [rev pl]) \<noteq> generate_sequence_construct u (Some [pl])"
proof
  assume eq: "generate_sequence_construct u (Some [rev pl]) = generate_sequence_construct u (Some [pl])"
  have "rev pl \<noteq> []" using assms(1) by simp
  with eq assms(1) have
    "render_chain (chain_triples (''<'' @ py_str_opt u @ ''>'') 1 (map node_str (rev pl)))
     = render_chain (chain_triples (''<'' @ py_str_opt u @ ''>'') 1 (map node_str pl))"
    by (simp add: generate_sequence_construct_chains)
  then have "map node_str (rev pl) = map node_str pl"
    by (rule render_chain_inj[rotated -1]) (use assms in auto)
  with assms(3) show False by (simp add: rev_map)
qed

text \<open>
  The rendering of one chain of \<open>n \<ge> 1\<close> predicates: exactly \<open>n\<close> triples in the order of the
  chain, the first with the object URI as subject, triple \<open>i\<close> with the variable \<open>?seq_o\<^sub>i\<close> as
  object, which is the subject of triple \<open>i + 1\<close>; these variables are pairwise distinct within
  the chain, and reversing a chain that is not its own reverse, and whose predicates hold no
  \<open>>\<close>, changes the text. The loop over several chains appends the rendering of each.
\<close>
lemma sequence_chain_triples_in_order:
  "pl \<noteq> [] \<Longrightarrow>
     generate_sequence_construct u (Some [pl])
       = Inr (render_chain (chain_triples (''<'' @ py_str_opt u @ ''>'') 1 (map node_str pl)))
   \<and> length (chain_triples (''<'' @ py_str_opt u @ ''>'') 1 (map node_str pl)) = length pl
   \<and> map (fst \<circ> snd) (chain_triples (''<'' @ py_str_opt u @ ''>'') 1 (map node_str pl))
       = map (\<lambda>p. ''<'' @ node_str p @ ''>'') pl
   \<and> map (snd \<circ> snd) (chain_triples (''<'' @ py_str_opt u @ ''>'') 1 (map node_str pl))
       = map seq_var [1..<1 + length pl]
   \<and> map fst (chain_triples (''<'' @ py_str_opt u @ ''>'') 1 (map node_str pl))
       = (''<'' @ py_str_opt u @ ''>'') # map seq_var [1..<length pl]
   \<and> distinct (map seq_var [1..<1 + length pl])
   \<and> ((\<forall>p\<in>set pl. CHR ''>'' \<notin> set (node_str p)) \<and> rev (map node_str pl) \<noteq> map node_str pl
        \<longrightarrow> generate_sequence_construct u (Some [rev pl]) \<noteq> generate_sequence_construct u (Some [pl]))
   \<and> (\<forall>chs. [] \<notin> set chs \<longrightarrow>
          generate_sequence_construct u (Some chs)
            = Inr (concat (map (\<lambda>c. render_chain (chain_triples (''<'' @ py_str_opt u @ ''>'') 1 (map node_str c))) chs)))"
proof -
  assume ne: "pl \<noteq> []"
  have one: "generate_sequence_construct u (Some [pl])
       = Inr (render_chain (chain_triples (''<'' @ py_str_opt u @ ''>'') 1 (map node_str pl)))"
    using ne generate_sequence_construct_chains[of "[pl]" u] by simp
  have subj: "map fst (chain_triples (''<'' @ py_str_opt u @ ''>'') 1 (map node_str pl))
       = (''<'' @ py_str_opt u @ ''>'') # map seq_var [1..<length pl]"
    using ne chain_triples_subjects[of "map node_str pl" "''<'' @ py_str_opt u @ ''>''" 1] by simp
  have obj: "map (snd \<circ> snd) (chain_triples (''<'' @ py_str_opt u @ ''>'') 1 (map node_str pl))
       = map seq_var [1..<1 + length pl]"
    using chain_triples_objects[of "''<'' @ py_str_opt u @ ''>''" 1 "map node_str pl"] by simp
  have prd: "map (fst \<circ> snd) (chain_triples (''<'' @ py_str_opt u @ ''>'') 1 (map node_str pl))
       = map (\<lambda>p. ''<'' @ node_str p @ ''>'') pl"
    unfolding chain_triples_predicates by (simp add: comp_def)
  show ?thesis
    using one subj obj prd ne reversed_chain_differs[of pl u]
      generate_sequence_construct_chains[of _ u]
    by (simp only: chain_triples_length length_map seq_vars_distinct) blast
qed

lemma sequence_chain_triples_in_order_example:
  "generate_sequence_construct (Some ''u'') (Some [[URIRef ''a'', URIRef ''b'']])
       = Inr ([tab] @ ''<u> <a> ?seq_o1 .'' @ [nl, tab] @ ''?seq_o1 <b> ?seq_o2 .'')
   \<and> generate_sequence_construct (Some ''u'') (Some [[URIRef ''b'', URIRef ''a'']])
       \<noteq> generate_sequence_construct (Some ''u'') (Some [[URIRef ''a'', URIRef ''b'']])
   \<and> generate_sequence_construct (Some ''u'') (Some [[URIRef ''a''], [URIRef ''b'']])
       = Inr ([tab] @ ''<u> <a> ?seq_o1 .'' @ [tab] @ ''<u> <b> ?seq_o1 .'')"
proof -
  have ne: "[URIRef ''a'', URIRef ''b''] \<noteq> []" by simp
  note t = sequence_chain_triples_in_order[OF ne, of "Some ''u''"]
  have two: "str_nat (Suc (Suc 0)) = ''2''" by (simp add: str_nat.simps digit_char_def)
  from t have a: "generate_sequence_construct (Some ''u'') (Some [[URIRef ''a'', URIRef ''b'']])
       = Inr ([tab] @ ''<u> <a> ?seq_o1 .'' @ [nl, tab] @ ''?seq_o1 <b> ?seq_o2 .'')"
    by (simp add: render_chain_def render_triple_text seq_var_def str_nat_1 two numeral_2_eq_2)
  have prem: "(\<forall>p\<in>set [URIRef ''a'', URIRef ''b'']. CHR ''>'' \<notin> set (node_str p))
       \<and> rev (map node_str [URIRef ''a'', URIRef ''b'']) \<noteq> map node_str [URIRef ''a'', URIRef ''b'']"
    by simp
  from t prem have "generate_sequence_construct (Some ''u'') (Some [rev [URIRef ''a'', URIRef ''b'']])
       \<noteq> generate_sequence_construct (Some ''u'') (Some [[URIRef ''a'', URIRef ''b'']])"
    by blast
  then have b: "generate_sequence_construct (Some ''u'') (Some [[URIRef ''b'', URIRef ''a'']])
       \<noteq> generate_sequence_construct (Some ''u'') (Some [[URIRef ''a'', URIRef ''b'']])"
    by simp
  from t have "[] \<notin> set [[URIRef ''a''], [URIRef ''b'']] \<longrightarrow>
       generate_sequence_construct (Some ''u'') (Some [[URIRef ''a''], [URIRef ''b'']])
         = Inr (concat (map (\<lambda>c. render_chain (chain_triples (''<'' @ py_str_opt (Some ''u'') @ ''>'') 1 (map node_str c)))
                  [[URIRef ''a''], [URIRef ''b'']]))"
    by blast
  then have c: "generate_sequence_construct (Some ''u'') (Some [[URIRef ''a''], [URIRef ''b'']])
       = Inr ([tab] @ ''<u> <a> ?seq_o1 .'' @ [tab] @ ''<u> <b> ?seq_o1 .'')"
    by (simp add: render_chain_def render_triple_text seq_var_def str_nat_1)
  from a b c show ?thesis by blast
qed

text \<open>
  Claim C4 on the code. Each chain is to get intermediate variables of its own. The loop of
  \<open>generate_sequence_construct\<close> numbers the variables of every chain from \<open>?seq_o1\<close> again: for
  the two chains \<open>a, b\<close> and \<open>c, d\<close> rendered in one call, both chains bind \<open>?seq_o1\<close> and
  \<open>?seq_o2\<close>, and the item query holds the two chains in one CONSTRUCT template and in one
  WHERE group, where equal names are one variable.
\<close>
theorem sequence_chains_share_variables:
  "generate_sequence_construct (Some ''u'') (Some [[URIRef ''a'', URIRef ''b''], [URIRef ''c'', URIRef ''d'']])
     = Inr (([tab] @ ''<u> <a> ?seq_o1 .'' @ [nl, tab] @ ''?seq_o1 <b> ?seq_o2 .'')
            @ ([tab] @ ''<u> <c> ?seq_o1 .'' @ [nl, tab] @ ''?seq_o1 <d> ?seq_o2 .''))
   \<and> sparql_vars ([tab] @ ''<u> <a> ?seq_o1 .'' @ [nl, tab] @ ''?seq_o1 <b> ?seq_o2 .'')
       = [''seq_o1'', ''seq_o1'', ''seq_o2'']
   \<and> sparql_vars ([tab] @ ''<u> <c> ?seq_o1 .'' @ [nl, tab] @ ''?seq_o1 <d> ?seq_o2 .'')
       = [''seq_o1'', ''seq_o1'', ''seq_o2'']
   \<and> get_item_predicates two_path_graph example_profile (selected_class two_path_item)
       = Inr (Some [], ExcludesEllipsis, Some [],
              Some [[URIRef ''a'', URIRef ''b''], [URIRef ''c'', URIRef ''d'']])
   \<and> count_sub (''> ?seq_o1 .'' @ [nl, tab] @ ''?seq_o1 <'')
         (projr (item_construct_text two_path_graph no_index two_path_item example_profile)) = 4"
proof -
  have gen: "generate_sequence_construct (Some ''u'') (Some [[URIRef ''a'', URIRef ''b''], [URIRef ''c'', URIRef ''d'']])
     = Inr (([tab] @ ''<u> <a> ?seq_o1 .'' @ [nl, tab] @ ''?seq_o1 <b> ?seq_o2 .'')
            @ ([tab] @ ''<u> <c> ?seq_o1 .'' @ [nl, tab] @ ''?seq_o1 <d> ?seq_o2 .''))"
    by (simp add: generate_sequence_construct_def sequence_chain_def py_str_int_def
          str_nat.simps digit_char_def)
  have v1: "sparql_vars ([tab] @ ''<u> <a> ?seq_o1 .'' @ [nl, tab] @ ''?seq_o1 <b> ?seq_o2 .'')
       = [''seq_o1'', ''seq_o1'', ''seq_o2'']"
    by (simp add: var_char_def)
  have v2: "sparql_vars ([tab] @ ''<u> <c> ?seq_o1 .'' @ [nl, tab] @ ''?seq_o1 <d> ?seq_o2 .'')
       = [''seq_o1'', ''seq_o1'', ''seq_o2'']"
    by (simp add: var_char_def)
  have preds: "get_item_predicates two_path_graph example_profile (selected_class two_path_item)
       = Inr (Some [], ExcludesEllipsis, Some [],
              Some [[URIRef ''a'', URIRef ''b''], [URIRef ''c'', URIRef ''d'']])"
    by (simp add: get_item_predicates_def get_relevant_shape_bns_for_profile_def two_path_graph_def
          two_path_item_def example_profile_def list_graph_def triples_matching_def match_pos_def)
  have depth: "g_value two_path_graph example_profile (ALTREXT ''hasBNodeDepth'') (PyInt 2) = PyInt 2"
    by (simp add: two_path_graph_def example_profile_def list_graph_def triples_matching_def match_pos_def)
  have uri: "uri two_path_item = Some ''u''" by (simp add: two_path_item_def)
  have "count_sub (''> ?seq_o1 .'' @ [nl, tab] @ ''?seq_o1 <'')
         (projr (item_construct_text two_path_graph no_index two_path_item example_profile)) = 4"
    by (simp add: item_construct_text_def Let_def preds depth[simplified] uri gen depth_of_def
          generate_include_predicates_def generate_inverse_predicates_def
          generate_bnode_construct_def generate_bnode_select_def py_range_def py_repeat_def
          py_str_int_def str_nat.simps digit_char_def upt_rec eval_nat_numeral)
  with gen v1 v2 preds show ?thesis by blast
qed

section \<open>Negotiation query: solution modifiers\<close>

lemma text_after_last_suffix:
  assumes "c \<notin> set t" "suffix (c # t) q"
  shows "text_after_last c q = t"
proof -
  from assms(2) obtain zs where q: "q = zs @ c # t" by (auto simp: suffix_def)
  have "takeWhile (\<lambda>x. x \<noteq> c) (rev t @ c # rev zs) = rev t"
    using assms(1) by (auto simp: takeWhile_tail)
  then show ?thesis by (simp add: q text_after_last_def)
qed

lemma select_profile_mediatype_suffix:
  "suffix (''}'' @ [nl] @ [nl]
           @ ''GROUP BY ?class ?profile ?req_profile ?def_profile ?format ?req_format ?def_format'' @ [nl]
           @ ''ORDER BY DESC(?req_profile) DESC(?distance) DESC(?def_profile) DESC(?req_format) DESC(?def_format)'' @ [nl]
           @ ''LIMIT 1'' @ [nl] @ ''        '')
          (select_profile_mediatype so sw classes rp rm)"
  unfolding select_profile_mediatype_def
  apply (simp split del: if_split)
  apply (rule suffix_order.refl | rule suffix_ConsI | rule suffix_appendI)+
  done

lemma negotiation_trailer:
  "text_after_last (CHR ''}'') (select_profile_mediatype so sw classes rp rm)
     = [nl] @ [nl]
       @ ''GROUP BY ?class ?profile ?req_profile ?def_profile ?format ?req_format ?def_format'' @ [nl]
       @ ''ORDER BY DESC(?req_profile) DESC(?distance) DESC(?def_profile) DESC(?req_format) DESC(?def_format)'' @ [nl]
       @ ''LIMIT 1'' @ [nl] @ ''        ''"
proof -
  let ?t = "[nl] @ [nl]
       @ ''GROUP BY ?class ?profile ?req_profile ?def_profile ?format ?req_format ?def_format'' @ [nl]
       @ ''ORDER BY DESC(?req_profile) DESC(?distance) DESC(?def_profile) DESC(?req_format) DESC(?def_format)'' @ [nl]
       @ ''LIMIT 1'' @ [nl] @ ''        ''"
  have s: "suffix (CHR ''}'' # ?t) (select_profile_mediatype so sw classes rp rm)"
    using select_profile_mediatype_suffix[of so sw classes rp rm] by simp
  have n: "CHR ''}'' \<notin> set ?t" by simp
  show ?thesis by (rule text_after_last_suffix[OF n s])
qed

lemma concat_replicate_char: "concat (replicate n [c]) = replicate n c"
  by (induction n) simp_all

lemma py_repeat_char: "py_repeat [c] (int n) = replicate n c"
  by (simp add: py_repeat_def concat_replicate_char)

text \<open>
  Claim C8. Whatever the candidate classes, the requested profile and the requested
  mediatypes, the negotiation query is a SELECT of \<open>?profile ?class (count(?mid) as ?distance)\<close>
  and the five flags over a WHERE group that takes \<open>?class\<close> from the candidate classes,
  walks \<open>rdfs:subClassOf*\<close> through \<open>?mid\<close>, binds \<open>?req_profile\<close> by comparison with the requested
  profile when one is given, binds \<open>?req_format\<close> from the requested mediatypes and their
  weights when some are given, and binds the two default flags; after the brace that closes
  the group come \<open>GROUP BY ?class ?profile ?req_profile ?def_profile ?format ?req_format
  ?def_format\<close>, then \<open>ORDER BY\<close> with requested profile, distance, default profile, requested
  format and default format, each descending, then \<open>LIMIT 1\<close>, and nothing else.
\<close>
theorem negotiation_query_select_group_order_limit:
  \<open>select_profile_mediatype so sw classes rp rm =
     [nl]
     @ ''PREFIX dcat: <http://www.w3.org/ns/dcat#>'' @ [nl]
     @ ''PREFIX sh: <http://www.w3.org/ns/shacl#>'' @ [nl]
     @ ''PREFIX geo: <http://www.opengis.net/ont/geosparql#>'' @ [nl]
     @ ''PREFIX rdfs: <http://www.w3.org/2000/01/rdf-schema#>'' @ [nl]
     @ ''PREFIX altr-ext: <http://www.w3.org/ns/dx/conneg/altr-ext#>'' @ [nl]
     @ ''PREFIX dcterms: <http://purl.org/dc/terms/>'' @ [nl]
     @ ''PREFIX prez: <https://kurrawong.net/prez/>'' @ [nl]
     @ [nl]
     @ ''SELECT ?profile ?class (count(?mid) as ?distance) ?req_profile ?def_profile ?format ?req_format ?def_format'' @ [nl]
     @ [nl]
     @ ''WHERE {'' @ [nl]
     @ ''  VALUES ?class {'' @ py_join '' '' (map (\<lambda>klass. ''<'' @ klass @ ''>'') classes) @ ''}'' @ [nl]
     @ ''  ?class rdfs:subClassOf* ?mid .'' @ [nl]
     @ ''  ?mid rdfs:subClassOf* ?general_class .'' @ [nl]
     @ ''  VALUES ?general_class { dcat:Dataset geo:FeatureCollection prez:FeatureCollectionList prez:FeatureList geo:Feature'' @ [nl]
     @ ''  skos:ConceptScheme skos:Concept skos:Collection prez:DatasetList prez:VocPrezCollectionList prez:SchemesList'' @ [nl]
     @ ''  prez:CatalogList dcat:Catalog dcat:Resource }'' @ [nl]
     @ ''  ?profile altr-ext:constrainsClass ?class ;'' @ [nl]
     @ ''           altr-ext:hasResourceFormat ?format .'' @ [nl]
     @ ''  '' @ (case rp of
                  None \<Rightarrow> []
                | Some p \<Rightarrow> if p = [] then [] else ''BIND(?profile=<'' @ p @ ''> as ?req_profile)'') @ [nl]
     @ ''  BIND(EXISTS { ?shape sh:targetClass ?class ;'' @ [nl]
     @ ''                       altr-ext:hasDefaultProfile ?profile } AS ?def_profile)'' @ [nl]
     @ ''  '' @ (case rm of
                  None \<Rightarrow> []
                | Some ms \<Rightarrow>
                    if ms = [] then []
                    else ''BIND('' @ [nl]
                         @ py_join ('','' @ [nl])
                             (so (map (\<lambda>tup. ''IF(?format="'' @ snd tup @ ''", "'' @ sw (fst tup) @ ''"'') ms))
                         @ '', ""'' @ replicate (length ms) (CHR '')'') @ [nl]
                         @ ''AS ?req_format)'') @ [nl]
     @ ''  BIND(EXISTS { ?profile altr-ext:hasDefaultResourceFormat ?format } AS ?def_format)'' @ [nl]
     @ ''}'' @ [nl]
     @ [nl]
     @ ''GROUP BY ?class ?profile ?req_profile ?def_profile ?format ?req_format ?def_format'' @ [nl]
     @ ''ORDER BY DESC(?req_profile) DESC(?distance) DESC(?def_profile) DESC(?req_format) DESC(?def_format)'' @ [nl]
     @ ''LIMIT 1'' @ [nl]
     @ ''        ''
   \<and> text_after_last (CHR ''}'') (select_profile_mediatype so sw classes rp rm)
     = [nl] @ [nl]
       @ ''GROUP BY ?class ?profile ?req_profile ?def_profile ?format ?req_format ?def_format'' @ [nl]
       @ ''ORDER BY DESC(?req_profile) DESC(?distance) DESC(?def_profile) DESC(?req_format) DESC(?def_format)'' @ [nl]
       @ ''LIMIT 1'' @ [nl] @ ''        ''\<close>
proof (rule conjI)
  show "text_after_last (CHR ''}'') (select_profile_mediatype so sw classes rp rm)
     = [nl] @ [nl]
       @ ''GROUP BY ?class ?profile ?req_profile ?def_profile ?format ?req_format ?def_format'' @ [nl]
       @ ''ORDER BY DESC(?req_profile) DESC(?distance) DESC(?def_profile) DESC(?req_format) DESC(?def_format)'' @ [nl]
       @ ''LIMIT 1'' @ [nl] @ ''        ''"
    by (rule negotiation_trailer)
qed ((cases rp; cases rm),
     simp_all add: select_profile_mediatype_def generate_mediatype_if_statements_def py_repeat_char Let_def)

section \<open>Listing construct: the empty sentinel\<close>

lemma listing_text_nonempty:
  "\<not> (truthy_str (uri parent_item) \<and> get_listing_predicates g profile (selected_class parent_item) = ([], [], [], []))
   \<Longrightarrow> generate_listing_construct g parent_item profile page per_page \<noteq> []"
  by (cases "get_listing_predicates g profile (selected_class parent_item)")
     (simp add: generate_listing_construct_def split del: if_split, auto)

text \<open>
  Claim C2. When the parent item has a URI and the four predicate sets that
  \<open>get_listing_predicates\<close> resolves for the profile and the selected class are all empty,
  \<open>generate_listing_construct\<close> returns the empty string, and no query text.
\<close>
theorem listing_construct_empty_sentinel:
  "truthy_str (uri parent_item) \<Longrightarrow>
   get_listing_predicates g profile (selected_class parent_item) = ([], [], [], []) \<Longrightarrow>
     generate_listing_construct g parent_item profile page per_page = []"
  by (simp add: generate_listing_construct_def)

theorem listing_construct_empty_sentinel_witness:
  "truthy_str (uri \<lparr> uri = Some ''http://example.org/ds'', selected_class = URIRef ''C'',
                     general_class = ''G'', link_constructor = ''/s/datasets'' \<rparr>)
   \<and> get_listing_predicates (list_graph [] []) (Some (URIRef ''P''))
         (selected_class \<lparr> uri = Some ''http://example.org/ds'', selected_class = URIRef ''C'',
                     general_class = ''G'', link_constructor = ''/s/datasets'' \<rparr>) = ([], [], [], [])
   \<and> generate_listing_construct (list_graph [] [])
         \<lparr> uri = Some ''http://example.org/ds'', selected_class = URIRef ''C'',
           general_class = ''G'', link_constructor = ''/s/datasets'' \<rparr>
         (Some (URIRef ''P'')) (Some 1) (Some 20) = []"
proof -
  let ?it = "\<lparr> uri = Some ''http://example.org/ds'', selected_class = URIRef ''C'',
               general_class = ''G'', link_constructor = ''/s/datasets'' \<rparr>"
  have a: "truthy_str (uri ?it)" by simp
  have b: "get_listing_predicates (list_graph [] []) (Some (URIRef ''P'')) (selected_class ?it) = ([], [], [], [])"
    by (simp add: get_listing_predicates_def get_relevant_shape_bns_for_profile_def list_graph_def
          triples_matching_def)
  from a b listing_construct_empty_sentinel[OF a b, of "Some 1" "Some 20"] show ?thesis by blast
qed

section \<open>Missing identifier and URI\<close>

lemma sequence_chain_None: "sequence_chain None pl = sequence_chain (Some ''None'') pl"
  by (simp add: sequence_chain_def split: list.splits)

lemma sequence_loop_None: "sequence_loop None acc chs = sequence_loop (Some ''None'') acc chs"
  by (induction chs arbitrary: acc) (simp_all add: sequence_chain_None split: sum.splits)

lemma generate_sequence_construct_None:
  "generate_sequence_construct None sp = generate_sequence_construct (Some ''None'') sp"
  by (simp add: generate_sequence_construct_def sequence_loop_None)

text \<open>
  Claim C1, as the code has it. \<open>get_dataset_construct\<close> raises ValueError when neither the
  identifier nor the URI is given, before it builds a text and without a call to the store.
  \<open>generate_item_construct\<close> has no such check: an item with no URI gets the text that an
  item with the URI \<open>None\<close> gets.
\<close>
theorem dataset_construct_needs_id_or_uri:
  "get_dataset_construct u sparql_construct None None st
     = (Inl (ValueError ''Either an ID or a URI must be provided for a SPARQL query''), st)
   \<and> item_construct_text g as_index (it\<lparr>uri := None\<rparr>) profile
     = item_construct_text g as_index (it\<lparr>uri := Some ''None''\<rparr>) profile"
proof -
  have eq: "item_construct_text g as_index (it\<lparr>uri := None\<rparr>) profile
     = item_construct_text g as_index (it\<lparr>uri := Some ''None''\<rparr>) profile"
    by (simp add: item_construct_text_def generate_sequence_construct_None Let_def
          cong: if_cong sum.case_cong prod.case_cong option.case_cong)
  show ?thesis using eq by (simp add: get_dataset_construct_def)
qed

text \<open>
  Claim C1 as stated fails on \<open>generate_item_construct\<close>: for an item with no URI it raises
  nothing and returns a query text, about the resource \<open><None>\<close>.
\<close>
theorem item_construct_without_uri_returns_text:
  "\<not> isl (fst (generate_item_construct empty_graph no_index item_without_uri example_profile fresh_world))
   \<and> prefix (''PREFIX rdfs: <http://www.w3.org/2000/01/rdf-schema#>'' @ [nl, nl]
              @ ''CONSTRUCT {'' @ [nl, tab] @ ''<None> ?p ?o1 .'')
        (projr (fst (generate_item_construct empty_graph no_index item_without_uri example_profile fresh_world)))"
  by (simp add: generate_item_construct_def generate_item_construct_body_def get_item_predicates_call_def
        item_construct_text_def get_item_predicates_def get_relevant_shape_bns_for_profile_def
        empty_graph_def list_graph_def triples_matching_def fresh_world_def item_without_uri_def
        example_profile_def depth_of_def lru_maxsize_def)

section \<open>Memoization\<close>

lemma item_construct_hit:
  assumes "map_of (item_cache w) (it, profile) = Some q"
  shows "fst (generate_item_construct g ai it profile w) = Inr q"
    and "resolutions (snd (generate_item_construct g ai it profile w)) = resolutions w"
    and "map_of (item_cache (snd (generate_item_construct g ai it profile w))) (it, profile) = Some q"
    and "length (item_cache (snd (generate_item_construct g ai it profile w))) \<le> max 1 (length (item_cache w))"
proof -
  have len: "length (filter (\<lambda>e. fst e \<noteq> (it, profile)) (item_cache w)) < length (item_cache w)"
    using assms by (intro length_filter_less[of "((it, profile), q)"]) (auto dest: map_of_SomeD)
  show "fst (generate_item_construct g ai it profile w) = Inr q"
    and "resolutions (snd (generate_item_construct g ai it profile w)) = resolutions w"
    and "map_of (item_cache (snd (generate_item_construct g ai it profile w))) (it, profile) = Some q"
    using assms by (simp_all add: generate_item_construct_def)
  show "length (item_cache (snd (generate_item_construct g ai it profile w))) \<le> max 1 (length (item_cache w))"
    using assms len by (simp add: generate_item_construct_def)
qed

lemma item_construct_miss:
  assumes "map_of (item_cache w) (it, profile) = None"
  shows "fst (generate_item_construct g ai it profile w) = item_construct_text g ai it profile"
    and "resolutions (snd (generate_item_construct g ai it profile w)) = Suc (resolutions w)"
    and "item_construct_text g ai it profile = Inr q \<Longrightarrow>
           map_of (item_cache (snd (generate_item_construct g ai it profile w))) (it, profile) = Some q"
    and "length (item_cache (snd (generate_item_construct g ai it profile w))) \<le> max lru_maxsize (length (item_cache w))"
  using assms
  by (auto simp: generate_item_construct_def generate_item_construct_body_def
        get_item_predicates_call_def lru_maxsize_def split: sum.splits prod.splits)

lemma item_construct_second_call:
  assumes "generate_item_construct g ai it profile w = (Inr q, w1)"
  shows "generate_item_construct g ai it profile w1 = (Inr q, snd (generate_item_construct g ai it profile w1))"
    and "resolutions (snd (generate_item_construct g ai it profile w1)) = resolutions w1"
proof -
  have stored: "map_of (item_cache w1) (it, profile) = Some q"
  proof (cases "map_of (item_cache w) (it, profile)")
    case None
    from item_construct_miss(1)[OF None, of g ai] assms
    have "item_construct_text g ai it profile = Inr q" by simp
    from item_construct_miss(3)[OF None this, of ] assms show ?thesis by simp
  next
    case (Some q')
    from item_construct_hit(1)[OF Some, of g ai] assms have "q' = q" by simp
    with item_construct_hit(3)[OF Some, of g ai] assms show ?thesis by simp
  qed
  from item_construct_hit(1)[OF stored, of g ai]
  show "generate_item_construct g ai it profile w1 = (Inr q, snd (generate_item_construct g ai it profile w1))"
    by (metis prod.collapse)
  from item_construct_hit(2)[OF stored, of g ai]
  show "resolutions (snd (generate_item_construct g ai it profile w1)) = resolutions w1" .
qed

lemma item_cache_bounded:
  assumes "length (item_cache w) \<le> lru_maxsize"
  shows "length (item_cache (snd (generate_item_construct g ai it profile w))) \<le> lru_maxsize"
proof (cases "map_of (item_cache w) (it, profile)")
  case None
  from item_construct_miss(4)[OF None, of g ai] assms show ?thesis by simp
next
  case (Some q)
  from item_construct_hit(4)[OF Some, of g ai] assms show ?thesis by (simp add: lru_maxsize_def)
qed

text \<open>
  Claim C10, as the code has it. \<open>get_item_predicates\<close> itself is not memoized: two calls with
  the same profile and class return equal results, and each of them reads the profile graph.
  The memoized function is \<open>generate_item_construct\<close>, behind an LRU cache of at most 128
  entries keyed by the pair of item and profile: after a call that returned a text, a second
  call with the same item and profile returns the same text without a run of
  \<open>get_item_predicates\<close>.
\<close>
theorem item_construct_memoized_not_resolution:
  "fst (get_item_predicates_call g profile c w) = fst (get_item_predicates_call g profile c w')
   \<and> resolutions (snd (get_item_predicates_call g profile c w)) = Suc (resolutions w)
   \<and> (generate_item_construct g ai it profile w = (Inr q, wn) \<longrightarrow>
         fst (generate_item_construct g ai it profile wn) = Inr q
         \<and> resolutions (snd (generate_item_construct g ai it profile wn)) = resolutions wn)
   \<and> (length (item_cache w) \<le> lru_maxsize \<longrightarrow>
         length (item_cache (snd (generate_item_construct g ai it profile w))) \<le> lru_maxsize)
   \<and> (map_of (item_cache w) (it, profile) = None \<and> fst (generate_item_construct g ai it profile w) = Inr q \<longrightarrow>
         item_cache (snd (generate_item_construct g ai it profile w))
           = take lru_maxsize (((it, profile), q) # item_cache w))
   \<and> (map_of (item_cache w) (it, profile) = Some q \<longrightarrow>
         item_cache (snd (generate_item_construct g ai it profile w))
           = ((it, profile), q) # filter (\<lambda>e. fst e \<noteq> (it, profile)) (item_cache w))
   \<and> lru_maxsize = 128"
proof -
  have e: "map_of (item_cache w) (it, profile) = None \<and> fst (generate_item_construct g ai it profile w) = Inr q \<longrightarrow>
         item_cache (snd (generate_item_construct g ai it profile w))
           = take lru_maxsize (((it, profile), q) # item_cache w)"
    by (auto simp: generate_item_construct_def generate_item_construct_body_def
          get_item_predicates_call_def split: sum.splits prod.splits)
  have f: "map_of (item_cache w) (it, profile) = Some q \<longrightarrow>
         item_cache (snd (generate_item_construct g ai it profile w))
           = ((it, profile), q) # filter (\<lambda>e. fst e \<noteq> (it, profile)) (item_cache w)"
    by (simp add: generate_item_construct_def)
  have a: "fst (get_item_predicates_call g profile c w) = fst (get_item_predicates_call g profile c w')"
    and b: "resolutions (snd (get_item_predicates_call g profile c w)) = Suc (resolutions w)"
    by (simp_all add: get_item_predicates_call_def)
  have c: "generate_item_construct g ai it profile w = (Inr q, wn) \<longrightarrow>
         fst (generate_item_construct g ai it profile wn) = Inr q
         \<and> resolutions (snd (generate_item_construct g ai it profile wn)) = resolutions wn"
    using item_construct_second_call[of g ai it profile w q wn] by (metis fst_conv)
  have d: "length (item_cache w) \<le> lru_maxsize \<longrightarrow>
         length (item_cache (snd (generate_item_construct g ai it profile w))) \<le> lru_maxsize"
    using item_cache_bounded by blast
  from a b c d e f show ?thesis by (simp add: lru_maxsize_def)
qed

lemma first_item_construct_call:
  "generate_item_construct empty_graph no_index item_without_uri example_profile fresh_world
     = (Inr (projr (fst (generate_item_construct empty_graph no_index item_without_uri example_profile fresh_world))),
        snd (generate_item_construct empty_graph no_index item_without_uri example_profile fresh_world))"
    "resolutions (snd (generate_item_construct empty_graph no_index item_without_uri example_profile fresh_world)) = 1"
  by (simp_all add: generate_item_construct_def generate_item_construct_body_def get_item_predicates_call_def
        item_construct_text_def get_item_predicates_def get_relevant_shape_bns_for_profile_def
        empty_graph_def list_graph_def triples_matching_def fresh_world_def item_without_uri_def
        example_profile_def depth_of_def lru_maxsize_def)

theorem item_construct_memoized_not_resolution_witness:
  "fst (generate_item_construct empty_graph no_index item_without_uri example_profile
         (snd (generate_item_construct empty_graph no_index item_without_uri example_profile fresh_world)))
     = fst (generate_item_construct empty_graph no_index item_without_uri example_profile fresh_world)
   \<and> resolutions (snd (generate_item_construct empty_graph no_index item_without_uri example_profile
         (snd (generate_item_construct empty_graph no_index item_without_uri example_profile fresh_world)))) = 1
   \<and> length (item_cache (snd (generate_item_construct empty_graph no_index item_without_uri example_profile fresh_world)))
       \<le> 128
   \<and> item_cache (snd (generate_item_construct empty_graph no_index item_without_uri example_profile fresh_world))
       = [((item_without_uri, example_profile),
           projr (fst (generate_item_construct empty_graph no_index item_without_uri example_profile fresh_world)))]
   \<and> item_cache (snd (generate_item_construct empty_graph no_index item_without_uri example_profile
         (snd (generate_item_construct empty_graph no_index item_without_uri example_profile fresh_world))))
       = [((item_without_uri, example_profile),
           projr (fst (generate_item_construct empty_graph no_index item_without_uri example_profile fresh_world)))]"
proof -
  let ?r = "generate_item_construct empty_graph no_index item_without_uri example_profile fresh_world"
  note t = item_construct_memoized_not_resolution[where g = empty_graph and profile = example_profile
      and c = "selected_class item_without_uri" and w = fresh_world and w' = fresh_world
      and ai = no_index and it = item_without_uri and q = "projr (fst ?r)" and wn = "snd ?r"]
  have len: "length (item_cache fresh_world) \<le> lru_maxsize" by (simp add: fresh_world_def)
  from t first_item_construct_call(1) have
    "fst (generate_item_construct empty_graph no_index item_without_uri example_profile (snd ?r)) = Inr (projr (fst ?r))"
    "resolutions (snd (generate_item_construct empty_graph no_index item_without_uri example_profile (snd ?r)))
       = resolutions (snd ?r)"
    by blast+
  moreover from first_item_construct_call(1) have "fst ?r = Inr (projr (fst ?r))" by (metis fst_conv)
  moreover from t len have "length (item_cache (snd ?r)) \<le> 128" by metis
  moreover have miss: "map_of (item_cache fresh_world) (item_without_uri, example_profile) = None"
    by (simp add: fresh_world_def)
  from t miss \<open>fst ?r = Inr (projr (fst ?r))\<close>
  have first: "item_cache (snd ?r) = take lru_maxsize (((item_without_uri, example_profile), projr (fst ?r)) # item_cache fresh_world)"
    by blast
  then have stored: "item_cache (snd ?r) = [((item_without_uri, example_profile), projr (fst ?r))]"
    by (simp add: fresh_world_def lru_maxsize_def)
  then have hit: "map_of (item_cache (snd ?r)) (item_without_uri, example_profile) = Some (projr (fst ?r))"
    by simp
  note t2 = item_construct_memoized_not_resolution[where g = empty_graph and profile = example_profile
      and c = "selected_class item_without_uri" and w = "snd ?r" and w' = fresh_world
      and ai = no_index and it = item_without_uri and q = "projr (fst ?r)" and wn = "snd ?r"]
  from t2 hit have "item_cache (snd (generate_item_construct empty_graph no_index item_without_uri example_profile (snd ?r)))
      = ((item_without_uri, example_profile), projr (fst ?r))
        # filter (\<lambda>e. fst e \<noteq> (item_without_uri, example_profile)) (item_cache (snd ?r))"
    by blast
  then have second: "item_cache (snd (generate_item_construct empty_graph no_index item_without_uri example_profile (snd ?r)))
      = [((item_without_uri, example_profile), projr (fst ?r))]"
    by (simp add: stored)
  ultimately show ?thesis using first_item_construct_call(2) stored second by simp
qed

text \<open>
  Claim C10 as stated fails: the second of two calls of \<open>get_item_predicates\<close> with the same
  profile and class reads the profile graph again.
\<close>
theorem item_predicates_resolved_on_every_call:
  "resolutions (snd (get_item_predicates_call empty_graph example_profile (selected_class item_without_uri)
       (snd (get_item_predicates_call empty_graph example_profile (selected_class item_without_uri) fresh_world)))) = 2
   \<and> resolutions (snd (get_item_predicates_call empty_graph example_profile (selected_class item_without_uri) fresh_world)) = 1"
  by (simp add: get_item_predicates_call_def fresh_world_def)

section \<open>Full-text search: limit, hash identifier, phrase\<close>

lemma py_split_space_not_Nil: "py_split_space t \<noteq> []"
  by (induction t) (auto split: list.splits)

lemma py_join_Cons_head: "py_join sep ((c # w) # ws) = c # py_join sep (w # ws)"
  by (cases ws) simp_all

lemma plus_join_replaces_spaces:
  "py_join ''+'' (py_split_space t) = map (\<lambda>c. if c = CHR '' '' then CHR ''+'' else c) t"
proof (induction t)
  case Nil
  show ?case by simp
next
  case (Cons c cs)
  obtain w ws where split: "py_split_space cs = w # ws"
    using py_split_space_not_Nil[of cs] by (cases "py_split_space cs") auto
  show ?case
  proof (cases "c = CHR '' ''")
    case True
    then show ?thesis using Cons split by (simp add: py_join_Cons)
  next
    case False
    then show ?thesis using Cons split by (simp add: py_join_Cons_head)
  qed
qed

lemma fts_built:
  "SearchQueryFusekiFTS fc pz t L ofs nsp (Some stp) tss =
     Inr (projr (SearchQueryFusekiFTS fc pz t L ofs nsp (Some stp) tss))"
  by (simp add: SearchQueryFusekiFTS_def Let_def)

lemma fts_inner_subselect:
  "\<exists>sc wc. inner_subselect (projr (SearchQueryFusekiFTS fc pz t L ofs nsp (Some stp) tss))
     = Inr (SubSelect sc wc
         (SolutionModifier (Some (OrderClause [OrderCondition (Var ''weight'') ''DESC'']))
            (Some (LimitOffsetClauses (LimitClause (L + 1)) (OffsetClause ofs)))))
     \<and> sc = SelectClause [Select_Var (Var ''focus_node''), Select_Var (Var ''pred''),
            Select_Var (Var ''match''), Select_Var (Var ''weight''),
            Select_As (from_primary_expression hash_expression) (Var ''hashID'')]"
  by (simp add: SearchQueryFusekiFTS_def Let_def inner_subselect_def)

text \<open>
  Claim C5. Every query that the full-text search builder builds for a limit \<open>L\<close> and an
  offset \<open>O\<close> carries \<open>L + 1\<close> in the LIMIT clause of its inner SELECT and \<open>O\<close> in the OFFSET
  clause, and orders the inner SELECT by \<open>?weight\<close> descending. The builder builds a query
  whenever \<open>shacl_tssp_preds\<close> is a list, and raises TypeError when it is \<open>None\<close>.
\<close>
theorem fts_limit_plus_one_offset_unchanged:
  "(\<exists>q. SearchQueryFusekiFTS fc pz t L ofs nsp (Some stp) tss = Inr q
        \<and> limit q = Inr (L + 1)
        \<and> offset q = Inr ofs
        \<and> inner_order_conditions q = Inr [OrderCondition (Var ''weight'') ''DESC''])
   \<and> SearchQueryFusekiFTS fc pz t L ofs nsp None tss = Inl TypeError"
proof -
  obtain sc wc where sub: "inner_subselect (projr (SearchQueryFusekiFTS fc pz t L ofs nsp (Some stp) tss))
     = Inr (SubSelect sc wc
         (SolutionModifier (Some (OrderClause [OrderCondition (Var ''weight'') ''DESC'']))
            (Some (LimitOffsetClauses (LimitClause (L + 1)) (OffsetClause ofs)))))"
    using fts_inner_subselect[of fc pz t L ofs nsp stp tss] by blast
  have "limit (projr (SearchQueryFusekiFTS fc pz t L ofs nsp (Some stp) tss)) = Inr (L + 1)"
    and "offset (projr (SearchQueryFusekiFTS fc pz t L ofs nsp (Some stp) tss)) = Inr ofs"
    and "inner_order_conditions (projr (SearchQueryFusekiFTS fc pz t L ofs nsp (Some stp) tss))
           = Inr [OrderCondition (Var ''weight'') ''DESC'']"
    by (simp_all add: limit_def offset_def inner_order_conditions_def sub)
  moreover have "SearchQueryFusekiFTS fc pz t L ofs nsp None tss = Inl TypeError"
    by (simp add: SearchQueryFusekiFTS_def Let_def)
  ultimately show ?thesis using fts_built[of fc pz t L ofs nsp stp tss] by blast
qed

text \<open>
  Claim C6. In every query that the builder builds, the fifth item of the inner SELECT binds
  \<open>?hashID\<close> to \<open>URI(CONCAT("urn:hash:", SHA256(CONCAT(STR(?focus_node), STR(?pred), STR(?match),
  STR(?weight)))))\<close>, after the four variables themselves; the value of that expression in a
  solution is \<open>urn:hash:\<close> followed by the digest of the texts of focus node, predicate, match
  and weight, joined in this order, so it depends on these four values only.
\<close>
theorem fts_hash_identifier_expression:
  "(\<exists>q. SearchQueryFusekiFTS fc pz t L ofs nsp (Some stp) tss = Inr q
        \<and> inner_select_vars q
            = Inr [Select_Var (Var ''focus_node''), Select_Var (Var ''pred''),
                   Select_Var (Var ''match''), Select_Var (Var ''weight''),
                   Select_As (from_primary_expression hash_expression) (Var ''hashID'')])
   \<and> hash_expression =
        Content_BuiltInCall ''URI'' [Content_BuiltInCall ''CONCAT''
          [Content_Literal (RDFLiteral ''urn:hash:''),
           Content_BuiltInCall ''SHA256'' [Content_BuiltInCall ''CONCAT''
             [Content_BuiltInCall ''STR'' [Content_Var (Var ''focus_node'')],
              Content_BuiltInCall ''STR'' [Content_Var (Var ''pred'')],
              Content_BuiltInCall ''STR'' [Content_Var (Var ''match'')],
              Content_BuiltInCall ''STR'' [Content_Var (Var ''weight'')]]]]]
   \<and> expression_text hash_expression
        = ''URI(CONCAT('' @ [dquote] @ ''urn:hash:'' @ [dquote]
          @ '', SHA256(CONCAT(STR(?focus_node), STR(?pred), STR(?match), STR(?weight)))))''
   \<and> expression_value sha256 binding hash_expression
        = ''urn:hash:'' @ sha256 (binding ''focus_node'' @ binding ''pred'' @ binding ''match'' @ binding ''weight'')"
proof -
  obtain sc wc sm where sub: "inner_subselect (projr (SearchQueryFusekiFTS fc pz t L ofs nsp (Some stp) tss))
     = Inr (SubSelect sc wc sm)"
    and sc: "sc = SelectClause [Select_Var (Var ''focus_node''), Select_Var (Var ''pred''),
            Select_Var (Var ''match''), Select_Var (Var ''weight''),
            Select_As (from_primary_expression hash_expression) (Var ''hashID'')]"
    using fts_inner_subselect[of fc pz t L ofs nsp stp tss] by blast
  have vars: "inner_select_vars (projr (SearchQueryFusekiFTS fc pz t L ofs nsp (Some stp) tss))
      = Inr [Select_Var (Var ''focus_node''), Select_Var (Var ''pred''),
             Select_Var (Var ''match''), Select_Var (Var ''weight''),
             Select_As (from_primary_expression hash_expression) (Var ''hashID'')]"
    by (simp add: inner_select_vars_def sub sc)
  have tree: "hash_expression =
        Content_BuiltInCall ''URI'' [Content_BuiltInCall ''CONCAT''
          [Content_Literal (RDFLiteral ''urn:hash:''),
           Content_BuiltInCall ''SHA256'' [Content_BuiltInCall ''CONCAT''
             [Content_BuiltInCall ''STR'' [Content_Var (Var ''focus_node'')],
              Content_BuiltInCall ''STR'' [Content_Var (Var ''pred'')],
              Content_BuiltInCall ''STR'' [Content_Var (Var ''match'')],
              Content_BuiltInCall ''STR'' [Content_Var (Var ''weight'')]]]]]"
    by (simp add: hash_expression_def create_with_one_expr_def create_with_n_expr_def)
  have rendered: "expression_text hash_expression
        = ''URI(CONCAT('' @ [dquote] @ ''urn:hash:'' @ [dquote]
          @ '', SHA256(CONCAT(STR(?focus_node), STR(?pred), STR(?match), STR(?weight)))))''"
    unfolding tree by simp
  have val: "expression_value sha256 binding hash_expression
        = ''urn:hash:'' @ sha256 (binding ''focus_node'' @ binding ''pred'' @ binding ''match'' @ binding ''weight'')"
    unfolding tree by simp
  from vars tree rendered val fts_built[of fc pz t L ofs nsp stp tss] show ?thesis by blast
qed

text \<open>
  Claim C7 on the code. The phrase that the builder embeds is the search term with every
  space character replaced by \<open>+\<close>: two adjacent spaces give two adjacent \<open>+\<close>, and a tab, which
  is whitespace, stays in the phrase.
\<close>
theorem fts_phrase_splits_on_single_spaces_only:
  "py_join ''+'' (py_split_space t) = map (\<lambda>c. if c = CHR '' '' then CHR ''+'' else c) t
   \<and> map_sum id search_phrases
        (SearchQueryFusekiFTS fc ''https://prez.dev/'' ''big  flood'' 10 0
           (Some [''http://www.w3.org/2000/01/rdf-schema#label'']) (Some []) None)
       = Inr [Some ''big++flood'']
   \<and> map_sum id search_phrases
        (SearchQueryFusekiFTS fc ''https://prez.dev/'' (''big'' @ [tab] @ ''flood'') 10 0
           (Some [''http://www.w3.org/2000/01/rdf-schema#label'']) (Some []) None)
       = Inr [Some (''big'' @ [tab] @ ''flood'')]"
proof -
  have a: "map_sum id search_phrases
        (SearchQueryFusekiFTS fc ''https://prez.dev/'' ''big  flood'' 10 0
           (Some [''http://www.w3.org/2000/01/rdf-schema#label'']) (Some []) None)
       = Inr [Some ''big++flood'']"
    by (simp add: SearchQueryFusekiFTS_def Let_def search_phrases_def inner_subselect_def
          generate_fts_triples_block_def plus_join_replaces_spaces)
  have b: "map_sum id search_phrases
        (SearchQueryFusekiFTS fc ''https://prez.dev/'' (''big'' @ [tab] @ ''flood'') 10 0
           (Some [''http://www.w3.org/2000/01/rdf-schema#label'']) (Some []) None)
       = Inr [Some (''big'' @ [tab] @ ''flood'')]"
    by (simp add: SearchQueryFusekiFTS_def Let_def search_phrases_def inner_subselect_def
          generate_fts_triples_block_def plus_join_replaces_spaces)
  from a b plus_join_replaces_spaces[of t] show ?thesis by blast
qed

section \<open>Interpolated values\<close>

lemma dataset_label_query_suffix:
  "suffix (dquote # v @ dquote # dataset_label_rest) (dataset_label_query u v)"
  unfolding dataset_label_query_def dataset_label_rest_def
  apply (simp split del: if_split)
  apply (rule suffix_order.refl | rule suffix_ConsI | rule suffix_appendI)+
  done

lemma scan_plain_literal:
  "dquote \<notin> set v \<Longrightarrow> backslash \<notin> set v \<Longrightarrow> nl \<notin> set v \<Longrightarrow> cr \<notin> set v \<Longrightarrow>
     scan_string_literal (v @ dquote # rest) = Some (v, rest)"
  by (induction v) auto

lemma get_dataset_label_sends:
  "get_dataset_label u recording_store v sent = (Inr (), sent @ [dataset_label_query u v])"
  by (simp add: get_dataset_label_def recording_store_def store_result_def)

lemma fts_phrase_is_term:
  "map_sum id search_phrases (SearchQueryFusekiFTS fc pz t L ofs (Some (p # ps)) (Some []) tss)
     = Inr [Some (map (\<lambda>c. if c = CHR '' '' then CHR ''+'' else c) t)]"
  by (simp add: SearchQueryFusekiFTS_def Let_def search_phrases_def inner_subselect_def
        generate_fts_triples_block_def plus_join_replaces_spaces)

text \<open>
  Claim C9, as the code has it. \<open>get_dataset_label\<close> places the identifier between the quotes
  of the literal unchanged, with nothing escaped, and sends the text to the store as built.
  The literal that opens at that place ends at the closing quote of the template, with the
  identifier as its content, when the identifier holds no quote, backslash or line break.
  The full-text search builder puts the search term into its literal node with the spaces
  replaced by \<open>+\<close> and every other character, quotes among them, as it came.
\<close>
theorem identifier_interpolated_verbatim:
  "suffix (dquote # v @ dquote # dataset_label_rest) (dataset_label_query u v)
   \<and> get_dataset_label u recording_store v sent = (Inr (), sent @ [dataset_label_query u v])
   \<and> (dquote \<notin> set v \<and> backslash \<notin> set v \<and> nl \<notin> set v \<and> cr \<notin> set v
        \<longrightarrow> scan_string_literal (v @ dquote # dataset_label_rest) = Some (v, dataset_label_rest))
   \<and> map_sum id search_phrases (SearchQueryFusekiFTS fc pz v L ofs (Some (p # ps)) (Some []) tss)
       = Inr [Some (map (\<lambda>c. if c = CHR '' '' then CHR ''+'' else c) v)]"
  using dataset_label_query_suffix get_dataset_label_sends scan_plain_literal fts_phrase_is_term by blast

theorem identifier_interpolated_verbatim_witness:
  "suffix (dquote # ''floods'' @ dquote # dataset_label_rest) (dataset_label_query example_utils ''floods'')
   \<and> scan_string_literal (''floods'' @ dquote # dataset_label_rest) = Some (''floods'', dataset_label_rest)"
proof -
  have safe: "dquote \<notin> set ''floods'' \<and> backslash \<notin> set ''floods'' \<and> nl \<notin> set ''floods'' \<and> cr \<notin> set ''floods''"
    by simp
  from identifier_interpolated_verbatim[where v = "''floods''" and u = example_utils] safe
  show ?thesis by blast
qed

text \<open>
  Claim C9 as stated fails: an identifier that holds a double quote is placed in the text as
  it is, and the literal that opens before it ends at that quote, so that what follows the
  quote in the identifier is read as query text.
\<close>
theorem identifier_quote_ends_literal:
  "suffix (dquote # (''x'' @ [dquote] @ '' || '' @ [dquote]) @ dquote # dataset_label_rest)
          (dataset_label_query example_utils (''x'' @ [dquote] @ '' || '' @ [dquote]))
   \<and> scan_string_literal ((''x'' @ [dquote] @ '' || '' @ [dquote]) @ dquote # dataset_label_rest)
       = Some (''x'', '' || '' @ [dquote] @ dquote # dataset_label_rest)"
  using dataset_label_query_suffix[of "''x'' @ [dquote] @ '' || '' @ [dquote]" example_utils]
  by simp

end
